theory Spec2Isabelle
  imports Complex_Main "HOL-Library.Word"
begin

section \<open>JavaScript values as the converter sees them\<close>

text \<open>
  A JavaScript string is a sequence of 16-bit code units; \<open>length\<close>, indices, the
  classes \<open>\d\<close>, \<open>\w\<close> and \<open>trim\<close> all work on code units. \<open>js\<close> turns an
  ASCII literal into such a sequence.
\<close>

type_synonym jschar = "16 word"
type_synonym jsstring = "jschar list"

definition js :: "string \<Rightarrow> jsstring" where
  "js s = map of_char s"

text \<open>
  The result of \<open>Number(...)\<close> on a string. A finite result carries the mathematical
  value of the numeric literal; the rounding of that value to a double is the identity on
  the integers below \<open>2^53\<close>, which covers every string of at most 15 digits.
  \<open>Infinity True\<close> is \<open>-Infinity\<close>.
\<close>

datatype jsnumber = NaN | Infinity bool | Finite rat

text \<open>
  The argument of \<open>isValidTimestamp\<close>, \<open>toMilliseconds\<close> and \<open>convert\<close> is
  documented as \<open>{string|number}\<close>. \<open>JSNumber n\<close> is the Number with the integer value
  \<open>n\<close> (of magnitude below \<open>10^21\<close>, where its String form is the plain decimal
  numeral); a Number that is not an integer has a String form that holds a character
  other than a digit.
\<close>

datatype jsvalue = JSString jsstring | JSNumber int

subsection \<open>Character classes\<close>

definition isDigit :: "jschar \<Rightarrow> bool" where
  "isDigit c = (0x30 \<le> c \<and> c \<le> 0x39)"

definition isWordChar :: "jschar \<Rightarrow> bool" where
  "isWordChar c =
     ((0x41 \<le> c \<and> c \<le> 0x5A) \<or> (0x61 \<le> c \<and> c \<le> 0x7A) \<or> isDigit c \<or> c = 0x5F)"

text \<open>WhiteSpace and LineTerminator of ECMAScript: what \<open>trim\<close> and \<open>Number\<close> strip.\<close>

definition isWhiteSpace :: "jschar \<Rightarrow> bool" where
  "isWhiteSpace c =
     (c = 0x09 \<or> c = 0x0A \<or> c = 0x0B \<or> c = 0x0C \<or> c = 0x0D \<or> c = 0x20 \<or> c = 0xA0
      \<or> c = 0x1680 \<or> (0x2000 \<le> c \<and> c \<le> 0x200A) \<or> c = 0x2028 \<or> c = 0x2029
      \<or> c = 0x202F \<or> c = 0x205F \<or> c = 0x3000 \<or> c = 0xFEFF)"

definition trim :: "jsstring \<Rightarrow> jsstring" where
  "trim s = rev (dropWhile isWhiteSpace (rev (dropWhile isWhiteSpace s)))"

subsection \<open>Numerals\<close>

definition digitVal :: "jschar \<Rightarrow> nat" where
  "digitVal c = unat c - 48"

definition decimalValue :: "jsstring \<Rightarrow> nat" where
  "decimalValue s = foldl (\<lambda>a c. 10 * a + digitVal c) 0 s"

definition digitChar :: "nat \<Rightarrow> jschar" where
  "digitChar d = of_nat (48 + d)"

fun natToString :: "nat \<Rightarrow> jsstring" where
  "natToString n =
     (if n < 10 then [digitChar n] else natToString (n div 10) @ [digitChar (n mod 10)])"

declare natToString.simps [simp del]

definition intToString :: "int \<Rightarrow> jsstring" where
  "intToString n = (if n < 0 then js ''-'' @ natToString (nat (- n)) else natToString (nat n))"

text \<open>\<open>String(value)\<close>.\<close>

fun String :: "jsvalue \<Rightarrow> jsstring" where
  "String (JSString s) = s"
| "String (JSNumber n) = intToString n"

subsection \<open>\<open>Number\<close> applied to a string: the StringNumericLiteral grammar\<close>

definition hexVal :: "jschar \<Rightarrow> nat option" where
  "hexVal c =
     (if isDigit c then Some (unat c - 48)
      else if 0x41 \<le> c \<and> c \<le> 0x46 then Some (unat c - 55)
      else if 0x61 \<le> c \<and> c \<le> 0x66 then Some (unat c - 87)
      else None)"

text \<open>Digits of a \<open>0x\<close>, \<open>0o\<close> or \<open>0b\<close> literal in the given radix; at least one.\<close>

definition radixLiteral :: "nat \<Rightarrow> jsstring \<Rightarrow> jsnumber" where
  "radixLiteral r ds =
     (if ds \<noteq> [] \<and> list_all (\<lambda>c. case hexVal c of None \<Rightarrow> False | Some d \<Rightarrow> d < r) ds
      then Finite (of_nat (foldl (\<lambda>a c. r * a + the (hexVal c)) 0 ds))
      else NaN)"

definition isExpChar :: "jschar \<Rightarrow> bool" where
  "isExpChar c = (c = 0x65 \<or> c = 0x45)"

text \<open>
  The mantissa \<open>DecimalDigits . DecimalDigits?\<close>, \<open>. DecimalDigits\<close> or
  \<open>DecimalDigits\<close>: its value, or \<open>None\<close> when the text is not of that form.
\<close>

definition mantissa :: "jsstring \<Rightarrow> rat option" where
  "mantissa m =
     (let ip = takeWhile isDigit m; rest = dropWhile isDigit m in
      case rest of
        [] \<Rightarrow> (if ip = [] then None else Some (of_nat (decimalValue ip)))
      | c # fp \<Rightarrow>
          (if c = 0x2E \<and> list_all isDigit fp \<and> (ip \<noteq> [] \<or> fp \<noteq> [])
           then Some (of_nat (decimalValue (ip @ fp)) / 10 ^ length fp)
           else None))"

text \<open>The exponent after \<open>e\<close> or \<open>E\<close>: an optional sign and at least one digit.\<close>

definition exponent :: "jsstring \<Rightarrow> int option" where
  "exponent e =
     (case e of
        [] \<Rightarrow> None
      | c # ds \<Rightarrow>
          (if c = 0x2B \<or> c = 0x2D
           then (if ds \<noteq> [] \<and> list_all isDigit ds
                 then Some ((if c = 0x2D then - 1 else 1) * int (decimalValue ds)) else None)
           else (if list_all isDigit e then Some (int (decimalValue e)) else None)))"

definition scale10 :: "rat \<Rightarrow> int \<Rightarrow> rat" where
  "scale10 q e = (if 0 \<le> e then q * 10 ^ nat e else q / 10 ^ nat (- e))"

definition unsignedDecimal :: "jsstring \<Rightarrow> jsnumber" where
  "unsignedDecimal u =
     (if u = js ''Infinity'' then Infinity False
      else
        let m = takeWhile (\<lambda>c. \<not> isExpChar c) u; rest = dropWhile (\<lambda>c. \<not> isExpChar c) u in
        case mantissa m of
          None \<Rightarrow> NaN
        | Some q \<Rightarrow>
            (case rest of
               [] \<Rightarrow> Finite q
             | _ # e \<Rightarrow> (case exponent e of None \<Rightarrow> NaN | Some k \<Rightarrow> Finite (scale10 q k))))"

definition negate :: "jsnumber \<Rightarrow> jsnumber" where
  "negate x = (case x of NaN \<Rightarrow> NaN | Infinity b \<Rightarrow> Infinity (\<not> b) | Finite q \<Rightarrow> Finite (- q))"

definition StrNumericLiteral :: "jsstring \<Rightarrow> jsnumber" where
  "StrNumericLiteral t =
     (case t of
        c # d # ds \<Rightarrow>
          (if c = 0x30 \<and> (d = 0x78 \<or> d = 0x58) then radixLiteral 16 ds
           else if c = 0x30 \<and> (d = 0x6F \<or> d = 0x4F) then radixLiteral 8 ds
           else if c = 0x30 \<and> (d = 0x62 \<or> d = 0x42) then radixLiteral 2 ds
           else if c = 0x2B then unsignedDecimal (d # ds)
           else if c = 0x2D then negate (unsignedDecimal (d # ds))
           else unsignedDecimal t)
      | _ \<Rightarrow> unsignedDecimal t)"

definition StringToNumber :: "jsstring \<Rightarrow> jsnumber" where
  "StringToNumber s = (let t = trim s in if t = [] then Finite 0 else StrNumericLiteral t)"

text \<open>\<open>Number(value)\<close>.\<close>

fun Number :: "jsvalue \<Rightarrow> jsnumber" where
  "Number (JSString s) = StringToNumber s"
| "Number (JSNumber n) = Finite (of_int n)"

definition isNaN :: "jsnumber \<Rightarrow> bool" where
  "isNaN x = (x = NaN)"

text \<open>The operators \<open>*\<close>, \<open>>=\<close> and \<open><=\<close> on Numbers.\<close>

fun mulNumber :: "jsnumber \<Rightarrow> jsnumber \<Rightarrow> jsnumber" where
  "mulNumber (Finite a) (Finite b) = Finite (a * b)"
| "mulNumber NaN _ = NaN"
| "mulNumber _ NaN = NaN"
| "mulNumber (Infinity s) (Finite b) = (if b = 0 then NaN else Infinity (s \<noteq> (b < 0)))"
| "mulNumber (Finite a) (Infinity s) = (if a = 0 then NaN else Infinity (s \<noteq> (a < 0)))"
| "mulNumber (Infinity s) (Infinity s') = Infinity (s \<noteq> s')"

fun leNumber :: "jsnumber \<Rightarrow> jsnumber \<Rightarrow> bool" where
  "leNumber (Finite a) (Finite b) = (a \<le> b)"
| "leNumber NaN _ = False"
| "leNumber _ NaN = False"
| "leNumber (Infinity s) (Finite b) = s"
| "leNumber (Finite a) (Infinity s) = (\<not> s)"
| "leNumber (Infinity s) (Infinity s') = (s \<or> \<not> s')"

section \<open>constants.js\<close>

definition MIN_TIMESTAMP_MS :: jsnumber where
  "MIN_TIMESTAMP_MS = Finite 946684800000"

definition MAX_TIMESTAMP_MS :: jsnumber where
  "MAX_TIMESTAMP_MS = Finite 4102444800000"

section \<open>converter.js: validation and unit inference\<close>

text \<open>The test \<open>/^\d{10}$|^\d{13}$/.test(str)\<close>.\<close>

definition tenOrThirteenDigits :: "jsstring \<Rightarrow> bool" where
  "tenOrThirteenDigits str =
     ((length str = 10 \<and> list_all isDigit str) \<or> (length str = 13 \<and> list_all isDigit str))"

definition isValidTimestamp :: "jsvalue \<Rightarrow> bool" where
  "isValidTimestamp v =
     (let num = Number v in
      if isNaN num then False
      else
        let str = trim (String v) in
        if \<not> tenOrThirteenDigits str then False
        else
          let ms = (if length str = 10 then mulNumber num (Finite 1000) else num) in
          leNumber MIN_TIMESTAMP_MS ms \<and> leNumber ms MAX_TIMESTAMP_MS)"

definition toMilliseconds :: "jsvalue \<Rightarrow> jsnumber" where
  "toMilliseconds timestamp =
     (let str = trim (String timestamp); num = StringToNumber str in
      if length str = 10 then mulNumber num (Finite 1000) else num)"

section \<open>Dates and the host platform\<close>

text \<open>
  A Date object holds a time value: an integer number of milliseconds since the epoch,
  or NaN (\<open>None\<close>). \<open>new Date(ms)\<close> clips: a value that is not finite or beyond
  \<open>8.64e15\<close> in magnitude gives an invalid Date, any other is truncated to an integer.
\<close>

datatype jsdate = Date (timeValue: "int option")

definition newDate :: "jsnumber \<Rightarrow> jsdate" where
  "newDate x =
     (case x of
        Finite q \<Rightarrow>
          (if \<bar>q\<bar> \<le> 8640000000000000
           then Date (Some (if 0 \<le> q then \<lfloor>q\<rfloor> else \<lceil>q\<rceil>)) else Date None)
      | _ \<Rightarrow> Date None)"

text \<open>What \<open>formatDate\<close> may be handed: a Date object, or any other value.\<close>

datatype datearg = NotADate jsvalue | DateObject jsdate

datatype jserror = RangeError

text \<open>
  The dictionary that \<open>formatToParts\<close> of the en-US formatter is folded into; the
  converter reads these six entries.
\<close>

record intlparts =
  yearPart :: jsstring
  monthPart :: jsstring
  dayPart :: jsstring
  hourPart :: jsstring
  minutePart :: jsstring
  secondPart :: jsstring

text \<open>
  The platform primitives the converter calls. A time zone argument \<open>None\<close> is the
  absent \<open>timeZone\<close> option (the host's own zone). The primitives that take a zone
  identifier raise RangeError on one the platform does not know; \<open>validTimeZone\<close>
  tells which identifiers it knows, and the rendering functions say what is printed for
  those.
  \<^item> \<open>dateGetTimezoneOffset\<close>: \<open>date.getTimezoneOffset()\<close>, in minutes;
  \<^item> \<open>defaultLocaleString\<close>: \<open>date.toLocaleString()\<close>;
  \<^item> \<open>localeString\<close>: \<open>date.toLocaleString(undefined, {timeZone, year: 'numeric',
    month: 'short', day: 'numeric', hour: '2-digit', minute: '2-digit', second: '2-digit',
    hour12: true})\<close>;
  \<^item> \<open>formatToParts\<close>: the parts of \<open>Intl.DateTimeFormat('en-US', {timeZone, year:
    'numeric', month: '2-digit', day: '2-digit', hour: '2-digit', minute: '2-digit',
    second: '2-digit', hour12: false, fractionalSecondDigits: 3})\<close>;
  \<^item> \<open>monthLongName\<close>, \<open>monthShortName\<close>, \<open>weekdayLongName\<close>,
    \<open>weekdayShortName\<close>: \<open>format\<close> of the en-US formatters with the single option
    \<open>month\<close> or \<open>weekday\<close>;
  \<^item> \<open>longOffsetString\<close>, \<open>shortNameString\<close>: \<open>date.toLocaleString('en-US',
    {timeZone, timeZoneName: 'longOffset'})\<close> and the same with \<open>'short'\<close>.
\<close>

record host =
  validTimeZone :: "jsstring \<Rightarrow> bool"
  dateGetTimezoneOffset :: "int \<Rightarrow> int"
  defaultLocaleString :: "int \<Rightarrow> jsstring"
  localeString :: "jsstring option \<Rightarrow> int \<Rightarrow> jsstring"
  formatToParts :: "jsstring option \<Rightarrow> int \<Rightarrow> intlparts"
  monthLongName :: "jsstring option \<Rightarrow> int \<Rightarrow> jsstring"
  monthShortName :: "jsstring option \<Rightarrow> int \<Rightarrow> jsstring"
  weekdayLongName :: "jsstring option \<Rightarrow> int \<Rightarrow> jsstring"
  weekdayShortName :: "jsstring option \<Rightarrow> int \<Rightarrow> jsstring"
  longOffsetString :: "jsstring option \<Rightarrow> int \<Rightarrow> jsstring"
  shortNameString :: "jsstring option \<Rightarrow> int \<Rightarrow> jsstring"

text \<open>A platform call with the options \<open>{timeZone: tz}\<close>: RangeError on an unknown zone.\<close>

definition withTimeZone :: "host \<Rightarrow> jsstring option \<Rightarrow> 'a \<Rightarrow> jserror + 'a" where
  "withTimeZone h tz r =
     (case tz of
        None \<Rightarrow> Inr r
      | Some z \<Rightarrow> (if validTimeZone h z then Inr r else Inl RangeError))"

text \<open>\<open>timezone === 'local' ? {} : { timeZone: timezone }\<close>.\<close>

definition tzOptions :: "jsstring \<Rightarrow> jsstring option" where
  "tzOptions timezone = (if timezone = js ''local'' then None else Some timezone)"

subsection \<open>Calendar fields of a time value in UTC\<close>

text \<open>
  Year, month and day of a day number (days since 1970-01-01) in the proleptic Gregorian
  calendar, as \<open>toISOString\<close> prints them.
\<close>

definition civilFromDays :: "int \<Rightarrow> int \<times> int \<times> int" where
  "civilFromDays days =
     (let z = days + 719468;
          era = z div 146097;
          doe = z mod 146097;
          yoe = (doe - doe div 1460 + doe div 36524 - doe div 146096) div 365;
          doy = doe - (365 * yoe + yoe div 4 - yoe div 100);
          mp = (5 * doy + 2) div 153;
          d = doy - (153 * mp + 2) div 5 + 1;
          m = (if mp < 10 then mp + 3 else mp - 9);
          y = yoe + era * 400 + (if m \<le> 2 then 1 else 0)
      in (y, m, d))"

definition padStart :: "nat \<Rightarrow> jschar \<Rightarrow> jsstring \<Rightarrow> jsstring" where
  "padStart n c s = replicate (n - length s) c @ s"

definition pad2 :: "int \<Rightarrow> jsstring" where
  "pad2 n = padStart 2 0x30 (intToString n)"

definition isoYear :: "int \<Rightarrow> jsstring" where
  "isoYear y =
     (if 0 \<le> y \<and> y \<le> 9999 then padStart 4 0x30 (intToString y)
      else (if y < 0 then js ''-'' else js ''+'') @ padStart 6 0x30 (intToString \<bar>y\<bar>))"

text \<open>\<open>date.toISOString()\<close> of a valid Date: \<open>YYYY-MM-DDTHH:mm:ss.sssZ\<close>.\<close>

definition toISOString :: "int \<Rightarrow> jsstring" where
  "toISOString t =
     (let (y, m, d) = civilFromDays (t div 86400000);
          ms = t mod 86400000
      in isoYear y @ js ''-'' @ pad2 m @ js ''-'' @ pad2 d @ js ''T''
         @ pad2 (ms div 3600000) @ js '':'' @ pad2 (ms div 60000 mod 60) @ js '':''
         @ pad2 (ms div 1000 mod 60) @ js ''.''
         @ padStart 3 0x30 (intToString (ms mod 1000)) @ js ''Z'')"

section \<open>converter.js: relative time\<close>

text \<open>
  \<open>_formatRelative(date)\<close>, with the clock reading \<open>new Date()\<close> as the argument
  \<open>now\<close>. On an invalid Date every comparison with NaN is false and the last branch
  prints NaN. The integer arithmetic is that of the doubles as long as the difference
  stays below \<open>2^53\<close>.
\<close>

definition formatRelative :: "int \<Rightarrow> jsdate \<Rightarrow> jsstring" where
  "formatRelative now d =
     (case timeValue d of
        None \<Rightarrow> js ''in NaN years''
      | Some t \<Rightarrow>
          (let diff = now - t;
               absDiff = \<bar>diff\<bar>;
               isPast = (diff > 0);
               seconds = absDiff div 1000;
               minutes = seconds div 60;
               hours = minutes div 60;
               days = hours div 24;
               weeks = days div 7;
               months = days div 30;
               years = days div 365;
               (val, unit) =
                 (if seconds < 60 then (seconds, js ''second'')
                  else if minutes < 60 then (minutes, js ''minute'')
                  else if hours < 24 then (hours, js ''hour'')
                  else if days < 7 then (days, js ''day'')
                  else if weeks < 4 then (weeks, js ''week'')
                  else if months < 12 then (months, js ''month'')
                  else (years, js ''year''));
               plural = (if val \<noteq> 1 then js ''s'' else [])
           in if isPast
              then (if val = 0 then js ''just now''
                    else intToString val @ js '' '' @ unit @ plural @ js '' ago'')
              else js ''in '' @ intToString val @ js '' '' @ unit @ plural))"

section \<open>converter.js: date parts and custom patterns\<close>

text \<open>\<open>parseInt(s, 10)\<close>; \<open>None\<close> is NaN.\<close>

definition parseInt10 :: "jsstring \<Rightarrow> int option" where
  "parseInt10 s =
     (let t = dropWhile isWhiteSpace s;
          neg = (t \<noteq> [] \<and> hd t = 0x2D);
          u = (if t \<noteq> [] \<and> (hd t = 0x2D \<or> hd t = 0x2B) then tl t else t);
          ds = takeWhile isDigit u
      in if ds = [] then None
         else Some ((if neg then - 1 else 1) * int (decimalValue ds)))"

text \<open>\<open>String(n)\<close> of a number that is an integer or NaN.\<close>

definition numberToString :: "int option \<Rightarrow> jsstring" where
  "numberToString n = (case n of None \<Rightarrow> js ''NaN'' | Some k \<Rightarrow> intToString k)"

text \<open>\<open>toUpperCase\<close> and \<open>toLowerCase\<close>, on the ASCII letters.\<close>

definition toUpperCase :: "jsstring \<Rightarrow> jsstring" where
  "toUpperCase s = map (\<lambda>c. if 0x61 \<le> c \<and> c \<le> 0x7A then c - 0x20 else c) s"

definition toLowerCase :: "jsstring \<Rightarrow> jsstring" where
  "toLowerCase s = map (\<lambda>c. if 0x41 \<le> c \<and> c \<le> 0x5A then c + 0x20 else c) s"

text \<open>
  The text \<open>[+-]\d{1,2}:?\d{2}\<close> at the start of a string, tried in the order of the
  backtracking matcher: two digits before one, the colon before its absence.
\<close>

definition offsetForm :: "jsstring \<Rightarrow> nat \<Rightarrow> bool \<Rightarrow> jsstring option" where
  "offsetForm s n colon =
     (let k = (if colon then 1 else 0); total = 1 + n + k + 2 in
      if total \<le> length s \<and> (s ! 0 = 0x2B \<or> s ! 0 = 0x2D)
         \<and> list_all isDigit (take n (drop 1 s))
         \<and> (if colon then s ! (1 + n) = 0x3A else True)
         \<and> list_all isDigit (take 2 (drop (1 + n + k) s))
      then Some (take total s) else None)"

definition offsetBody :: "jsstring \<Rightarrow> jsstring option" where
  "offsetBody s =
     (case offsetForm s 2 True of Some m \<Rightarrow> Some m | None \<Rightarrow>
      case offsetForm s 2 False of Some m \<Rightarrow> Some m | None \<Rightarrow>
      case offsetForm s 1 True of Some m \<Rightarrow> Some m | None \<Rightarrow>
      offsetForm s 1 False)"

text \<open>\<open>formatted.match(/GMT([+-]\d{1,2}:?\d{2})/)\<close>: the group of the leftmost match.\<close>

fun matchGMT :: "jsstring \<Rightarrow> jsstring option" where
  "matchGMT [] = None"
| "matchGMT (c # cs) =
     (if take 3 (c # cs) = js ''GMT''
      then (case offsetBody (drop 3 (c # cs)) of Some m \<Rightarrow> Some m | None \<Rightarrow> matchGMT cs)
      else matchGMT cs)"

text \<open>\<open>parts[parts.length - 1] || ''\<close> after \<open>formatted.split(' ')\<close>.\<close>

definition lastField :: "jsstring \<Rightarrow> jsstring" where
  "lastField s = rev (takeWhile (\<lambda>c. c \<noteq> 0x20) (rev s))"

text \<open>The sign, hours and minutes printed from \<open>date.getTimezoneOffset()\<close>.\<close>

definition offsetText :: "int \<Rightarrow> jsstring" where
  "offsetText tzo =
     (let offset = - tzo;
          sign = (if offset \<ge> 0 then js ''+'' else js ''-'');
          hours = padStart 2 0x30 (intToString (\<bar>offset\<bar> div 60));
          mins = padStart 2 0x30 (intToString (\<bar>offset\<bar> mod 60))
      in sign @ hours @ js '':'' @ mins)"

text \<open>\<open>_getTimezoneOffset(date, timezone)\<close>; its \<open>catch {}\<close> swallows the RangeError.\<close>

definition getTimezoneOffset :: "host \<Rightarrow> int \<Rightarrow> jsstring \<Rightarrow> jsstring" where
  "getTimezoneOffset h t timezone =
     (if timezone = js ''local'' then offsetText (dateGetTimezoneOffset h t)
      else
        case withTimeZone h (Some timezone) (longOffsetString h (Some timezone) t) of
          Inl e \<Rightarrow> []
        | Inr formatted \<Rightarrow>
            (case matchGMT formatted of
               Some offset \<Rightarrow>
                 (if 0x3A \<notin> set offset then take 3 offset @ js '':'' @ drop 3 offset
                  else offset)
             | None \<Rightarrow> []))"

text \<open>\<open>_getTimezoneAbbr(date, timezone)\<close>.\<close>

definition getTimezoneAbbr :: "host \<Rightarrow> int \<Rightarrow> jsstring \<Rightarrow> jsstring" where
  "getTimezoneAbbr h t timezone =
     (if timezone = js ''local'' then lastField (shortNameString h None t)
      else
        case withTimeZone h (Some timezone) (shortNameString h (Some timezone) t) of
          Inl e \<Rightarrow> []
        | Inr formatted \<Rightarrow> lastField formatted)"

text \<open>The object that \<open>_getDateParts\<close> returns; a numeric field \<open>None\<close> is NaN.\<close>

record dateparts =
  year :: "int option"
  month :: "int option"
  monthLong :: jsstring
  monthShort :: jsstring
  day :: "int option"
  weekdayLong :: jsstring
  weekdayShort :: jsstring
  hour :: "int option"
  hour12 :: "int option"
  minute :: "int option"
  second :: "int option"
  millisecond :: int
  ampm :: jsstring
  offset :: jsstring
  tzAbbr :: jsstring

text \<open>
  \<open>_getDateParts(date, timezone)\<close>. The first formatter is constructed with the zone and
  raises on an unknown one. \<open>date.getMilliseconds()\<close> is the time value modulo 1000, the
  offset of a zone being a whole number of seconds.
\<close>

definition getDateParts :: "host \<Rightarrow> int \<Rightarrow> jsstring \<Rightarrow> jserror + dateparts" where
  "getDateParts h t timezone =
     (let options = tzOptions timezone in
      case withTimeZone h options (formatToParts h options t) of
        Inl e \<Rightarrow> Inl e
      | Inr parts \<Rightarrow>
          (let hour = parseInt10 (hourPart parts);
               hour12 = (case hour of
                           None \<Rightarrow> None
                         | Some x \<Rightarrow> Some (if x = 0 then 12 else (if x > 12 then x - 12 else x)))
           in Inr \<lparr> year = parseInt10 (yearPart parts),
                    month = parseInt10 (monthPart parts),
                    monthLong = monthLongName h options t,
                    monthShort = monthShortName h options t,
                    day = parseInt10 (dayPart parts),
                    weekdayLong = weekdayLongName h options t,
                    weekdayShort = weekdayShortName h options t,
                    hour = hour,
                    hour12 = hour12,
                    minute = parseInt10 (minutePart parts),
                    second = parseInt10 (secondPart parts),
                    millisecond = t mod 1000,
                    ampm = (case hour of
                              None \<Rightarrow> js ''pm''
                            | Some x \<Rightarrow> (if x < 12 then js ''am'' else js ''pm'')),
                    offset = getTimezoneOffset h t timezone,
                    tzAbbr = getTimezoneAbbr h t timezone \<rparr>))"

text \<open>\<open>s.slice(-2)\<close>.\<close>

definition sliceLast2 :: "jsstring \<Rightarrow> jsstring" where
  "sliceLast2 s = drop (length s - 2) s"

text \<open>The token table of \<open>_formatCustom\<close>, in the order the object literal lists it.\<close>

definition tokens :: "dateparts \<Rightarrow> (jsstring \<times> jsstring) list" where
  "tokens parts =
     [(js ''YYYY'', numberToString (year parts)),
      (js ''YY'', sliceLast2 (numberToString (year parts))),
      (js ''MMMM'', monthLong parts),
      (js ''MMM'', monthShort parts),
      (js ''MM'', padStart 2 0x30 (numberToString (month parts))),
      (js ''M'', numberToString (month parts)),
      (js ''DD'', padStart 2 0x30 (numberToString (day parts))),
      (js ''D'', numberToString (day parts)),
      (js ''dddd'', weekdayLong parts),
      (js ''ddd'', weekdayShort parts),
      (js ''HH'', padStart 2 0x30 (numberToString (hour parts))),
      (js ''H'', numberToString (hour parts)),
      (js ''hh'', padStart 2 0x30 (numberToString (hour12 parts))),
      (js ''h'', numberToString (hour12 parts)),
      (js ''mm'', padStart 2 0x30 (numberToString (minute parts))),
      (js ''m'', numberToString (minute parts)),
      (js ''ss'', padStart 2 0x30 (numberToString (second parts))),
      (js ''s'', numberToString (second parts)),
      (js ''SSS'', padStart 3 0x30 (intToString (millisecond parts))),
      (js ''A'', toUpperCase (ampm parts)),
      (js ''a'', toLowerCase (ampm parts)),
      (js ''Z'', offset parts),
      (js ''z'', tzAbbr parts)]"

text \<open>
  \<open>Object.keys(tokens).sort((a, b) => b.length - a.length)\<close>: a stable sort, longest
  key first.
\<close>

definition sortedTokens :: "dateparts \<Rightarrow> (jsstring \<times> jsstring) list" where
  "sortedTokens parts = sort_key (\<lambda>(k, v). - int (length k)) (tokens parts)"

text \<open>
  \<open>result.replace(new RegExp(token, 'g'), value)\<close> for a token of letters: every
  occurrence, left to right, the search resuming after the replaced text. The values
  hold no dollar sign, so the replacement text is the value itself.
\<close>

function replaceAll :: "jsstring \<Rightarrow> jsstring \<Rightarrow> jsstring \<Rightarrow> jsstring" where
  "replaceAll token v [] = []"
| "replaceAll token v (c # cs) =
     (if token \<noteq> [] \<and> take (length token) (c # cs) = token
      then v @ replaceAll token v (drop (length token) (c # cs))
      else c # replaceAll token v cs)"
  by pat_completeness auto
termination
  by (relation "measure (\<lambda>(token, v, s). length s)") auto

definition substituteTokens :: "dateparts \<Rightarrow> jsstring \<Rightarrow> jsstring" where
  "substituteTokens parts pattern =
     foldl (\<lambda>result (token, v). replaceAll token v result) pattern (sortedTokens parts)"

text \<open>\<open>_formatCustom(date, pattern, timezone)\<close>.\<close>

definition formatCustom :: "host \<Rightarrow> int \<Rightarrow> jsstring \<Rightarrow> jsstring \<Rightarrow> jserror + jsstring" where
  "formatCustom h t pattern timezone =
     (case getDateParts h t timezone of
        Inl e \<Rightarrow> Inl e
      | Inr parts \<Rightarrow> Inr (substituteTokens parts pattern))"

text \<open>\<open>_formatISO(date, timezone)\<close>. \<open>toISOString\<close> raises on an invalid Date.\<close>

definition formatISO :: "host \<Rightarrow> int \<Rightarrow> jsstring \<Rightarrow> jserror + jsstring" where
  "formatISO h t timezone =
     (if timezone = js ''local''
      then
        (let local = newDate (Finite (of_int (t - dateGetTimezoneOffset h t * 60000))) in
         case timeValue local of
           None \<Rightarrow> Inl RangeError
         | Some lt \<Rightarrow> Inr (butlast (toISOString lt) @ offsetText (dateGetTimezoneOffset h t)))
      else if timezone = js ''UTC'' then Inr (toISOString t)
      else formatCustom h t (js ''YYYY-MM-DDTHH:mm:ss'') timezone)"

section \<open>converter.js: formatDate and convert\<close>

text \<open>
  The options object; an absent property is \<open>None\<close>. \<open>showSecondaryTimezone\<close> is read
  for its truth value only.
\<close>

record options =
  format :: "jsstring option"
  customFormat :: "jsstring option"
  timezone :: "jsstring option"
  showSecondaryTimezone :: bool
  secondaryTimezone :: "jsstring option"

text \<open>The body of the \<open>try\<close> block of \<open>formatDate\<close>.\<close>

definition formatDateTry ::
  "host \<Rightarrow> int \<Rightarrow> int \<Rightarrow> jsstring \<Rightarrow> jsstring \<Rightarrow> jsstring \<Rightarrow> jserror + jsstring" where
  "formatDateTry h now t fmt custom tz =
     (let tzOpts = tzOptions tz in
      if fmt = js ''iso'' then formatISO h t tz
      else if fmt = js ''relative'' then Inr (formatRelative now (Date (Some t)))
      else if fmt = js ''custom'' then formatCustom h t custom tz
      else withTimeZone h tzOpts (localeString h tzOpts t))"

definition formatDate :: "host \<Rightarrow> int \<Rightarrow> datearg \<Rightarrow> options \<Rightarrow> jserror + jsstring" where
  "formatDate h now d opts =
     (let fmt = (case format opts of None \<Rightarrow> js ''locale'' | Some f \<Rightarrow> f);
          custom = (case customFormat opts of None \<Rightarrow> js ''YYYY-MM-DD HH:mm:ss'' | Some c \<Rightarrow> c);
          tz = (case timezone opts of None \<Rightarrow> js ''local'' | Some z \<Rightarrow> z)
      in case d of
           NotADate v \<Rightarrow> Inr (js ''Invalid Date'')
         | DateObject (Date None) \<Rightarrow> Inr (js ''Invalid Date'')
         | DateObject (Date (Some t)) \<Rightarrow>
             (case formatDateTry h now t fmt custom tz of
                Inr s \<Rightarrow> Inr s
              | Inl e \<Rightarrow> Inr (defaultLocaleString h t)))"

text \<open>\<open>toDate(timestamp)\<close>; \<open>None\<close> is null.\<close>

definition toDate :: "jsvalue \<Rightarrow> jsdate option" where
  "toDate timestamp =
     (if \<not> isValidTimestamp timestamp then None
      else Some (newDate (toMilliseconds timestamp)))"

text \<open>The object that \<open>convert\<close> returns; a property that is not set is \<open>None\<close>.\<close>

record conversion =
  success :: bool
  error :: "jsstring option"
  original :: jsvalue
  milliseconds :: "jsnumber option"
  seconds :: "jsnumber option"
  isSeconds :: "bool option"
  date :: "jsdate option"
  formatted :: "jsstring option"
  secondaryFormatted :: "jsstring option"
  relative :: "jsstring option"

text \<open>\<open>Math.floor(ms / 1000)\<close>.\<close>

definition floorDiv1000 :: "jsnumber \<Rightarrow> jsnumber" where
  "floorDiv1000 x =
     (case x of
        NaN \<Rightarrow> NaN
      | Infinity b \<Rightarrow> Infinity b
      | Finite q \<Rightarrow> Finite (of_int \<lfloor>q / 1000\<rfloor>))"

definition convert :: "host \<Rightarrow> int \<Rightarrow> jsvalue \<Rightarrow> options \<Rightarrow> jserror + conversion" where
  "convert h now timestamp opts =
     (case toDate timestamp of
        None \<Rightarrow>
          Inr \<lparr> success = False, error = Some (js ''Invalid timestamp''), original = timestamp,
                milliseconds = None, seconds = None, isSeconds = None, date = None,
                formatted = None, secondaryFormatted = None, relative = None \<rparr>
      | Some d \<Rightarrow>
          (let ms = toMilliseconds timestamp;
               secs = (length (String timestamp) = 10)
           in case formatDate h now (DateObject d) opts of
                Inl e \<Rightarrow> Inl e
              | Inr f \<Rightarrow>
                  (case (if showSecondaryTimezone opts \<and> secondaryTimezone opts \<noteq> None
                            \<and> secondaryTimezone opts \<noteq> Some []
                         then map_sum id Some
                                (formatDate h now (DateObject d)
                                   (opts\<lparr>timezone := secondaryTimezone opts\<rparr>))
                         else Inr None) of
                     Inl e \<Rightarrow> Inl e
                   | Inr f2 \<Rightarrow>
                       Inr \<lparr> success = True, error = None, original = timestamp,
                             milliseconds = Some ms, seconds = Some (floorDiv1000 ms),
                             isSeconds = Some secs, date = Some d,
                             formatted = Some f, secondaryFormatted = f2,
                             relative = Some (formatRelative now d) \<rparr>)))"

section \<open>converter.js: findTimestamps\<close>

text \<open>
  The assertion \<open>\b\<close> at position \<open>i\<close>: exactly one of the code units before
  and after the position is a word character.
\<close>

definition wordBoundary :: "jsstring \<Rightarrow> nat \<Rightarrow> bool" where
  "wordBoundary text i =
     ((0 < i \<and> i \<le> length text \<and> isWordChar (text ! (i - 1)))
        \<noteq> (i < length text \<and> isWordChar (text ! i)))"

definition digitsAt :: "jsstring \<Rightarrow> nat \<Rightarrow> nat \<Rightarrow> bool" where
  "digitsAt text i n = (i + n \<le> length text \<and> list_all isDigit (take n (drop i text)))"

text \<open>
  A match of \<open>\b(\d{10}|\d{13})\b\<close> that starts at position \<open>i\<close>: the length of
  the matched text, the first alternative being tried first.
\<close>

definition matchAt :: "jsstring \<Rightarrow> nat \<Rightarrow> nat option" where
  "matchAt text i =
     (if \<not> wordBoundary text i then None
      else if digitsAt text i 10 \<and> wordBoundary text (i + 10) then Some 10
      else if digitsAt text i 13 \<and> wordBoundary text (i + 13) then Some 13
      else None)"

text \<open>
  \<open>regex.exec(text)\<close> of the global regex with \<open>lastIndex = i\<close>: the leftmost match
  at or after \<open>i\<close>, as its index and length, or \<open>None\<close> for null.
\<close>

function regexExec :: "jsstring \<Rightarrow> nat \<Rightarrow> (nat \<times> nat) option" where
  "regexExec text i =
     (if length text < i then None
      else case matchAt text i of
             Some n \<Rightarrow> Some (i, n)
           | None \<Rightarrow> regexExec text (i + 1))"
  by pat_completeness auto
termination
  by (relation "measure (\<lambda>(text, i). length text + 1 - i)") auto

declare regexExec.simps [simp del]

record candidate =
  "value" :: jsstring
  index :: nat
  length' :: nat
  isSeconds :: bool

definition pushIfValid :: "candidate list \<Rightarrow> jsstring \<Rightarrow> nat \<Rightarrow> candidate list" where
  "pushIfValid results timestamp i =
     (if isValidTimestamp (JSString timestamp)
      then results @ [\<lparr> value = timestamp, index = i, length' = length timestamp,
                        candidate.isSeconds = (length timestamp = 10) \<rparr>]
      else results)"

text \<open>
  The loop \<open>while ((match = regex.exec(text)) !== null)\<close>: after a match the regex
  resumes at the end of the matched text.
\<close>

function findLoop :: "jsstring \<Rightarrow> nat \<Rightarrow> candidate list \<Rightarrow> candidate list" where
  "findLoop text lastIndex results =
     (case regexExec text lastIndex of
        None \<Rightarrow> results
      | Some (i, n) \<Rightarrow> findLoop text (i + n) (pushIfValid results (take n (drop i text)) i))"
  by pat_completeness auto
termination
proof (relation "measure (\<lambda>(text, lastIndex, results). length text + 1 - lastIndex)")
  show "wf (measure (\<lambda>(text, lastIndex, results). length text + 1 - lastIndex))"
    by simp
next
  fix s :: jsstring and lastIndex :: nat and results :: "candidate list"
    and x2 :: "nat \<times> nat" and i n :: nat
  assume ex: "regexExec s lastIndex = Some x2" and x2: "(i, n) = x2"
  have bounds: "regexExec u k = Some (j, m) \<Longrightarrow> k \<le> j \<and> j \<le> length u \<and> 0 < m"
    for u k j m
  proof (induction u k rule: regexExec.induct)
    case (1 u k)
    show ?case
    proof (cases "matchAt u k")
      case None
      with 1 show ?thesis
        by (subst (asm) (2) regexExec.simps) (auto split: if_splits)
    next
      case (Some m')
      with 1(2) have "j = k" "m = m'" "k \<le> length u"
        by (subst (asm) regexExec.simps, auto split: if_splits)+
      moreover from Some have "0 < m'"
        by (auto simp: matchAt_def split: if_splits)
      ultimately show ?thesis by simp
    qed
  qed
  from bounds [of s lastIndex i n] ex x2
  show "((s, i + n, pushIfValid results (take n (drop i s)) i), (s, lastIndex, results))
          \<in> measure (\<lambda>(text, lastIndex, results). length text + 1 - lastIndex)"
    by auto
qed

declare findLoop.simps [simp del]

definition findTimestamps :: "jsstring \<Rightarrow> candidate list" where
  "findTimestamps text = findLoop text 0 []"

section \<open>A concrete host\<close>

text \<open>
  A platform to run the converter on: its own zone is UTC, it knows the zone identifier
  \<open>UTC\<close> and no other, and its default locale is en-US. The calendar fields are those
  of the time value in UTC.
\<close>

definition monthNames :: "string list" where
  "monthNames = [''January'', ''February'', ''March'', ''April'', ''May'', ''June'', ''July'',
     ''August'', ''September'', ''October'', ''November'', ''December'']"

definition weekdayNames :: "string list" where
  "weekdayNames = [''Sunday'', ''Monday'', ''Tuesday'', ''Wednesday'', ''Thursday'', ''Friday'',
     ''Saturday'']"

record utcfields =
  ufYear :: int
  ufMonth :: int
  ufDay :: int
  ufHour :: int
  ufMinute :: int
  ufSecond :: int
  ufWeekday :: int

definition utcFields :: "int \<Rightarrow> utcfields" where
  "utcFields t =
     (let (y, m, d) = civilFromDays (t div 86400000); ms = t mod 86400000 in
      \<lparr> ufYear = y, ufMonth = m, ufDay = d, ufHour = ms div 3600000,
        ufMinute = ms div 60000 mod 60, ufSecond = ms div 1000 mod 60,
        ufWeekday = (t div 86400000 + 4) mod 7 \<rparr>)"

definition monthName :: "int \<Rightarrow> jsstring" where
  "monthName t = js (monthNames ! nat (ufMonth (utcFields t) - 1))"

definition weekdayName :: "int \<Rightarrow> jsstring" where
  "weekdayName t = js (weekdayNames ! nat (ufWeekday (utcFields t)))"

definition hourOfTwelve :: "int \<Rightarrow> int" where
  "hourOfTwelve x = (if x mod 12 = 0 then 12 else x mod 12)"

definition meridiem :: "int \<Rightarrow> jsstring" where
  "meridiem x = (if x < 12 then js ''AM'' else js ''PM'')"

text \<open>The en-US rendering \<open>12/5/2023, 4:00:00 PM\<close>.\<close>

definition enUSDateTime :: "int \<Rightarrow> jsstring" where
  "enUSDateTime t =
     (let f = utcFields t in
      intToString (ufMonth f) @ js ''/'' @ intToString (ufDay f) @ js ''/''
      @ intToString (ufYear f) @ js '', '' @ intToString (hourOfTwelve (ufHour f)) @ js '':''
      @ pad2 (ufMinute f) @ js '':'' @ pad2 (ufSecond f) @ js '' '' @ meridiem (ufHour f))"

text \<open>The en-US rendering \<open>Dec 5, 2023, 04:00:00 PM\<close>.\<close>

definition enUSShortMonth :: "int \<Rightarrow> jsstring" where
  "enUSShortMonth t =
     (let f = utcFields t in
      take 3 (monthName t) @ js '' '' @ intToString (ufDay f) @ js '', ''
      @ intToString (ufYear f) @ js '', '' @ pad2 (hourOfTwelve (ufHour f)) @ js '':''
      @ pad2 (ufMinute f) @ js '':'' @ pad2 (ufSecond f) @ js '' '' @ meridiem (ufHour f))"

definition utcHost :: host where
  "utcHost =
     \<lparr> validTimeZone = (\<lambda>z. z = js ''UTC''),
       dateGetTimezoneOffset = (\<lambda>t. 0),
       defaultLocaleString = enUSDateTime,
       localeString = (\<lambda>tz. enUSShortMonth),
       formatToParts = (\<lambda>tz t. let f = utcFields t in
          \<lparr> yearPart = intToString (ufYear f), monthPart = pad2 (ufMonth f),
            dayPart = pad2 (ufDay f), hourPart = pad2 (ufHour f),
            minutePart = pad2 (ufMinute f), secondPart = pad2 (ufSecond f) \<rparr>),
       monthLongName = (\<lambda>tz. monthName),
       monthShortName = (\<lambda>tz t. take 3 (monthName t)),
       weekdayLongName = (\<lambda>tz. weekdayName),
       weekdayShortName = (\<lambda>tz t. take 3 (weekdayName t)),
       longOffsetString = (\<lambda>tz t. enUSDateTime t @ js '' GMT''),
       shortNameString = (\<lambda>tz t. enUSDateTime t @ js '' UTC'') \<rparr>"

section \<open>The detector as the specification words it\<close>

text \<open>
  A maximal run of digits occupies the positions \<open>i, ..., i + n - 1\<close> of the text:
  they hold digits, and no digit stands right before or right after them.
\<close>

definition maximalDigitRun :: "jsstring \<Rightarrow> nat \<Rightarrow> nat \<Rightarrow> bool" where
  "maximalDigitRun text i n =
     (0 < n \<and> digitsAt text i n
      \<and> (i = 0 \<or> \<not> isDigit (text ! (i - 1)))
      \<and> (i + n = length text \<or> \<not> isDigit (text ! (i + n))))"

text \<open>
  A reported timestamp: a maximal run of 10 or 13 digits with a word boundary on either
  side, whose text passes \<open>isValidTimestamp\<close>.
\<close>

definition timestampRun :: "jsstring \<Rightarrow> nat \<Rightarrow> nat \<Rightarrow> bool" where
  "timestampRun text i n =
     ((n = 10 \<or> n = 13) \<and> maximalDigitRun text i n
      \<and> wordBoundary text i \<and> wordBoundary text (i + n)
      \<and> isValidTimestamp (JSString (take n (drop i text))))"

definition candidateAt :: "jsstring \<Rightarrow> nat \<Rightarrow> nat \<Rightarrow> candidate" where
  "candidateAt text i n =
     \<lparr> value = take n (drop i text), index = i, length' = n, candidate.isSeconds = (n = 10) \<rparr>"

text \<open>All of them, from left to right.\<close>

definition timestampRuns :: "jsstring \<Rightarrow> candidate list" where
  "timestampRuns text =
     concat (map (\<lambda>i. map (candidateAt text i) (filter (timestampRun text i) [10, 13]))
               [0..<length text])"

text \<open>The same without the range check, and the candidates that start at one position.\<close>

definition syntacticRun :: "jsstring \<Rightarrow> nat \<Rightarrow> nat \<Rightarrow> bool" where
  "syntacticRun text i n =
     ((n = 10 \<or> n = 13) \<and> maximalDigitRun text i n
      \<and> wordBoundary text i \<and> wordBoundary text (i + n))"

definition runsAt :: "jsstring \<Rightarrow> nat \<Rightarrow> candidate list" where
  "runsAt text i = map (candidateAt text i) (filter (timestampRun text i) [10, 13])"

section \<open>Facts about strings and numerals\<close>

lemma isDigit_unat: "isDigit c \<longleftrightarrow> 48 \<le> unat c \<and> unat c \<le> 57"
  by (simp add: isDigit_def word_le_nat_alt)

lemma isWhiteSpace_unat: "isWhiteSpace c \<Longrightarrow> unat c < 48 \<or> 57 < unat c"
  unfolding isWhiteSpace_def by (auto simp: word_le_nat_alt)

lemma digit_not_whitespace: "isDigit c \<Longrightarrow> \<not> isWhiteSpace c"
  using isWhiteSpace_unat [of c] by (auto simp: isDigit_unat)

lemma isDigit_isWordChar: "isDigit c \<Longrightarrow> isWordChar c"
  by (simp add: isWordChar_def)

lemma dropWhile_hd_id: "xs \<noteq> [] \<Longrightarrow> \<not> P (hd xs) \<Longrightarrow> dropWhile P xs = xs"
  by (cases xs) auto

lemma trim_id:
  "s \<noteq> [] \<Longrightarrow> \<not> isWhiteSpace (hd s) \<Longrightarrow> \<not> isWhiteSpace (last s) \<Longrightarrow> trim s = s"
  by (simp add: trim_def dropWhile_hd_id hd_rev)

lemma trim_digits: "list_all isDigit s \<Longrightarrow> trim s = s"
proof (cases "s = []")
  case True
  then show ?thesis by (simp add: trim_def)
next
  case False
  assume d: "list_all isDigit s"
  from False d have "isDigit (hd s)" "isDigit (last s)"
    by (auto simp: list_all_iff)
  with False show ?thesis by (simp add: trim_id digit_not_whitespace)
qed

lemma takeWhile_all: "list_all P xs \<Longrightarrow> takeWhile P xs = xs"
  by (induction xs) auto

lemma dropWhile_all: "list_all P xs \<Longrightarrow> dropWhile P xs = []"
  by (induction xs) auto

lemma mantissa_digits:
  "list_all isDigit t \<Longrightarrow> t \<noteq> [] \<Longrightarrow> mantissa t = Some (of_nat (decimalValue t))"
  by (simp add: mantissa_def takeWhile_all dropWhile_all)

lemma unsignedDecimal_digits:
  assumes "list_all isDigit t" "t \<noteq> []"
  shows "unsignedDecimal t = Finite (of_nat (decimalValue t))"
proof -
  have ne: "list_all (\<lambda>c. \<not> isExpChar c) t"
    using assms(1) by (auto simp: list_all_iff isDigit_def isExpChar_def)
  have "hd (js ''Infinity'') = 0x49" by (simp add: js_def)
  moreover have "isDigit (hd t)" using assms by (cases t) auto
  ultimately have "t \<noteq> js ''Infinity''" by (auto simp: isDigit_def)
  then show ?thesis
    using assms
    by (simp add: unsignedDecimal_def takeWhile_all [OF ne] dropWhile_all [OF ne] mantissa_digits)
qed

lemma StrNumericLiteral_digits:
  assumes "list_all isDigit t" "t \<noteq> []"
  shows "StrNumericLiteral t = Finite (of_nat (decimalValue t))"
proof (cases t)
  case Nil
  with assms show ?thesis by simp
next
  case (Cons c r)
  note t = Cons
  show ?thesis
  proof (cases r)
    case Nil
    with t assms show ?thesis
      using unsignedDecimal_digits [of t] by (simp add: StrNumericLiteral_def)
  next
    case (Cons d ds)
    from assms t Cons have cd: "isDigit c" "isDigit d" by auto
    from cd have "c \<noteq> 0x2B" "c \<noteq> 0x2D" "d \<noteq> 0x78" "d \<noteq> 0x58" "d \<noteq> 0x6F" "d \<noteq> 0x4F"
      "d \<noteq> 0x62" "d \<noteq> 0x42"
      by (auto simp: isDigit_def)
    then show ?thesis
      using unsignedDecimal_digits [OF assms] t Cons by (simp add: StrNumericLiteral_def)
  qed
qed

lemma StringToNumber_digits:
  "list_all isDigit (trim s) \<Longrightarrow> trim s \<noteq> [] \<Longrightarrow>
   StringToNumber s = Finite (of_nat (decimalValue (trim s)))"
  by (simp add: StringToNumber_def StrNumericLiteral_digits)

lemma digitChar_unat: "d < 10 \<Longrightarrow> unat (digitChar d) = 48 + d"
  by (simp add: digitChar_def unat_word_ariths unat_of_nat)

lemma digitChar_isDigit: "d < 10 \<Longrightarrow> isDigit (digitChar d)"
  by (simp add: isDigit_unat digitChar_unat)

lemma digitVal_digitChar: "d < 10 \<Longrightarrow> digitVal (digitChar d) = d"
  by (simp add: digitVal_def digitChar_unat)

lemma natToString_digits: "list_all isDigit (natToString n)"
proof (induction n rule: natToString.induct)
  case (1 n)
  show ?case
  proof (cases "n < 10")
    case True
    then show ?thesis by (subst natToString.simps) (simp add: digitChar_isDigit)
  next
    case False
    with 1 show ?thesis by (subst natToString.simps) (simp add: digitChar_isDigit)
  qed
qed

lemma natToString_not_empty: "natToString n \<noteq> []"
  by (subst natToString.simps) simp

lemma decimalValue_snoc: "decimalValue (xs @ [c]) = 10 * decimalValue xs + digitVal c"
  by (simp add: decimalValue_def)

lemma decimalValue_natToString: "decimalValue (natToString n) = n"
proof (induction n rule: natToString.induct)
  case (1 n)
  show ?case
  proof (cases "n < 10")
    case True
    then show ?thesis
      by (subst natToString.simps) (simp add: decimalValue_def digitVal_digitChar)
  next
    case False
    with 1 show ?thesis
      by (subst natToString.simps) (simp add: decimalValue_snoc digitVal_digitChar)
  qed
qed

lemma intToString_negative: "n < 0 \<Longrightarrow> hd (trim (intToString n)) = 0x2D"
proof -
  assume n: "n < 0"
  let ?s = "intToString n"
  have s: "?s = 0x2D # natToString (nat (- n))" using n by (simp add: intToString_def js_def)
  have "isDigit (last (natToString (nat (- n))))"
    using natToString_digits [of "nat (- n)"] natToString_not_empty [of "nat (- n)"]
    by (auto simp: list_all_iff)
  then have "\<not> isWhiteSpace (last ?s)"
    using s natToString_not_empty by (simp add: digit_not_whitespace)
  moreover have "\<not> isWhiteSpace (hd ?s)" using s by (simp add: isWhiteSpace_def)
  ultimately have "trim ?s = ?s" using s by (simp add: trim_id)
  then show ?thesis using s by simp
qed

text \<open>On a value whose trimmed String form is a digit string, \<open>Number\<close> reads the numeral.\<close>

lemma Number_digits:
  assumes "list_all isDigit (trim (String v))" "trim (String v) \<noteq> []"
  shows "Number v = Finite (of_nat (decimalValue (trim (String v))))"
proof (cases v)
  case (JSString s)
  with assms show ?thesis by (simp add: StringToNumber_digits)
next
  case (JSNumber n)
  show ?thesis
  proof (cases "n < 0")
    case True
    from intToString_negative [OF True] assms JSNumber
    have "isDigit 0x2D" by (cases "trim (intToString n)") auto
    then show ?thesis by (simp add: isDigit_def)
  next
    case False
    then have "intToString n = natToString (nat n)" by (simp add: intToString_def)
    then have "trim (String v) = natToString (nat n)"
      using JSNumber by (simp add: trim_digits natToString_digits)
    then show ?thesis using JSNumber False by (simp add: decimalValue_natToString)
  qed
qed

lemma tenOrThirteenDigits_iff:
  "tenOrThirteenDigits s \<longleftrightarrow> (length s = 10 \<or> length s = 13) \<and> list_all isDigit s"
  by (auto simp: tenOrThirteenDigits_def)

lemma isValidTimestamp_digits:
  "isValidTimestamp v \<longleftrightarrow>
     (let str = trim (String v) in
        (length str = 10 \<or> length str = 13) \<and> list_all isDigit str \<and>
        (let ms = (if length str = 10 then decimalValue str * 1000 else decimalValue str) in
           946684800000 \<le> ms \<and> ms \<le> 4102444800000))"
proof (cases "tenOrThirteenDigits (trim (String v))")
  case False
  then show ?thesis
    by (auto simp: isValidTimestamp_def Let_def tenOrThirteenDigits_iff)
next
  case True
  then have d: "list_all isDigit (trim (String v))" and ne: "trim (String v) \<noteq> []"
    by (auto simp: tenOrThirteenDigits_iff)
  have num: "Number v = Finite (of_nat (decimalValue (trim (String v))))"
    by (rule Number_digits [OF d ne])
  have a: "(946684800000 \<le> rat_of_nat k) = (946684800000 \<le> k)" for k
    by (metis of_nat_le_iff of_nat_numeral)
  have b: "(rat_of_nat k \<le> 4102444800000) = (k \<le> 4102444800000)" for k
    by (metis of_nat_le_iff of_nat_numeral)
  have c: "rat_of_nat k * 1000 = rat_of_nat (k * 1000)" for k by simp
  show ?thesis
    using True d
    by (auto simp add: isValidTimestamp_def Let_def num isNaN_def MIN_TIMESTAMP_MS_def
        MAX_TIMESTAMP_MS_def tenOrThirteenDigits_iff a b c simp del: of_nat_mult)
qed

text \<open>Evaluation of literals.\<close>

lemmas js_eval = js_def natToString.simps intToString_def pad2_def padStart_def digitChar_def

lemmas digits_eval = trim_def isWhiteSpace_def isDigit_def decimalValue_def digitVal_def js_def

lemma toMilliseconds_digits:
  assumes "list_all isDigit (trim (String v))" "trim (String v) \<noteq> []"
  shows "toMilliseconds v =
     Finite (of_nat (if length (trim (String v)) = 10 then decimalValue (trim (String v)) * 1000
                     else decimalValue (trim (String v))))"
proof -
  have "list_all isDigit (trim (trim (String v)))" "trim (trim (String v)) = trim (String v)"
    using assms(1) by (simp_all add: trim_digits)
  then have "StringToNumber (trim (String v)) = Finite (of_nat (decimalValue (trim (String v))))"
    using assms(2) StringToNumber_digits [of "trim (String v)"] by simp
  then show ?thesis by (simp add: toMilliseconds_def Let_def)
qed

section \<open>Claims about validation and unit inference\<close>

text \<open>
  C1 (amended). \<open>isValidTimestamp(value)\<close> is true if and only if the trimmed String form
  of the value consists of exactly 10 or 13 ASCII digits and the milliseconds derived from
  it (the number times 1000 for 10 digits, the number itself for 13) lie between
  946684800000 and 4102444800000, both bounds included. \<open>"4102444800"\<close> is accepted;
  \<open>"946684800"\<close>, which has nine digits, \<open>"12345"\<close> and \<open>"12345678901"\<close> are rejected.
\<close>

theorem isValidTimestamp_characterisation:
  "(isValidTimestamp v \<longleftrightarrow>
      (let str = trim (String v) in
         (length str = 10 \<or> length str = 13) \<and> list_all isDigit str \<and>
         (let ms = (if length str = 10 then decimalValue str * 1000 else decimalValue str) in
            946684800000 \<le> ms \<and> ms \<le> 4102444800000)))
   \<and> isValidTimestamp (JSString (js ''4102444800''))
   \<and> \<not> isValidTimestamp (JSString (js ''946684800''))
   \<and> \<not> isValidTimestamp (JSString (js ''12345''))
   \<and> \<not> isValidTimestamp (JSString (js ''12345678901''))"
proof (intro conjI)
  show "isValidTimestamp v \<longleftrightarrow>
      (let str = trim (String v) in
         (length str = 10 \<or> length str = 13) \<and> list_all isDigit str \<and>
         (let ms = (if length str = 10 then decimalValue str * 1000 else decimalValue str) in
            946684800000 \<le> ms \<and> ms \<le> 4102444800000))"
    by (rule isValidTimestamp_digits)
  show "isValidTimestamp (JSString (js ''4102444800''))"
    by (simp add: isValidTimestamp_digits Let_def digits_eval)
  show "\<not> isValidTimestamp (JSString (js ''946684800''))"
    by (simp add: isValidTimestamp_digits Let_def digits_eval)
  show "\<not> isValidTimestamp (JSString (js ''12345''))"
    by (simp add: isValidTimestamp_digits Let_def digits_eval)
  show "\<not> isValidTimestamp (JSString (js ''12345678901''))"
    by (simp add: isValidTimestamp_digits Let_def digits_eval)
qed

text \<open>
  C1 as stated fails: it lists \<open>isValidTimestamp("946684800")\<close> as true, but that string
  has nine digits and the digit test rejects it.
\<close>

theorem isValidTimestamp_nine_digits_rejected:
  "\<not> isValidTimestamp (JSString (js ''946684800''))
   \<and> length (js ''946684800'') = 9"
  by (simp add: isValidTimestamp_digits Let_def digits_eval)



section \<open>Claims about the detector\<close>

lemma digitsAt_nth: "digitsAt s i n \<Longrightarrow> k < n \<Longrightarrow> isDigit (s ! (i + k))"
  by (auto simp: digitsAt_def list_all_length)

lemma digitsAt_mono: "digitsAt s i n \<Longrightarrow> m \<le> n \<Longrightarrow> digitsAt s i m"
  by (auto simp: digitsAt_def list_all_length)

text \<open>The regex matches at a position exactly when a run of the right shape starts there.\<close>

lemma matchAt_Some_run:
  assumes "matchAt s i = Some n"
  shows "syntacticRun s i n"
proof -
  from assms have wb: "wordBoundary s i" and n: "n = 10 \<or> n = 13"
    and d: "digitsAt s i n" and wbn: "wordBoundary s (i + n)"
    by (auto simp: matchAt_def split: if_splits)
  from n have n0: "0 < n" by auto
  from d have le: "i + n \<le> length s" by (simp add: digitsAt_def)
  have first: "isWordChar (s ! i)"
    using digitsAt_nth [OF d n0] by (simp add: isDigit_isWordChar)
  have last: "isWordChar (s ! (i + n - 1))"
    using digitsAt_nth [OF d, of "n - 1"] n0 by (simp add: isDigit_isWordChar)
  have before: "i = 0 \<or> \<not> isDigit (s ! (i - 1))"
    using wb first le n0 by (auto simp: wordBoundary_def dest: isDigit_isWordChar)
  have after: "i + n = length s \<or> \<not> isDigit (s ! (i + n))"
    using wbn last le n0 by (auto simp: wordBoundary_def dest: isDigit_isWordChar)
  show ?thesis
    using n n0 d before after wb wbn by (simp add: syntacticRun_def maximalDigitRun_def)
qed

lemma run_matchAt:
  assumes "syntacticRun s i n"
  shows "matchAt s i = Some n"
proof -
  from assms have n: "n = 10 \<or> n = 13" and d: "digitsAt s i n"
    and wb: "wordBoundary s i" and wbn: "wordBoundary s (i + n)"
    by (auto simp: syntacticRun_def maximalDigitRun_def)
  show ?thesis
  proof (cases "n = 10")
    case True
    with d wb wbn show ?thesis by (simp add: matchAt_def)
  next
    case False
    with n have n13: "n = 13" by simp
    have d10: "digitsAt s i 10" using digitsAt_mono [OF d, of 10] n13 by simp
    have "isWordChar (s ! (i + 9))" "isWordChar (s ! (i + 10))"
      using digitsAt_nth [OF d, of 9] digitsAt_nth [OF d, of 10] n13
      by (simp_all add: isDigit_isWordChar)
    moreover have "i + 13 \<le> length s" using d n13 by (simp add: digitsAt_def)
    ultimately have "\<not> wordBoundary s (i + 10)"
      by (simp add: wordBoundary_def add.commute)
    with d wb wbn n13 show ?thesis by (simp add: matchAt_def)
  qed
qed

lemma matchAt_iff: "matchAt s i = Some n \<longleftrightarrow> syntacticRun s i n"
  using matchAt_Some_run run_matchAt by blast

text \<open>No match starts inside a matched run.\<close>

lemma run_gap:
  assumes "syntacticRun s i n" "i < j" "j < i + n"
  shows "matchAt s j = None"
proof -
  from assms(1) have d: "digitsAt s i n" by (simp add: syntacticRun_def maximalDigitRun_def)
  have prev: "isDigit (s ! (j - 1))"
    using digitsAt_nth [OF d, of "j - 1 - i"] assms(2,3) by simp
  have cur: "isDigit (s ! j)"
    using digitsAt_nth [OF d, of "j - i"] assms(2,3) by simp
  have "j < length s" using d assms(3) by (simp add: digitsAt_def)
  with prev cur assms(2) have "\<not> wordBoundary s j"
    by (simp add: wordBoundary_def isDigit_isWordChar)
  then show ?thesis by (simp add: matchAt_def)
qed

lemma regexExec_None:
  "regexExec s k = None \<Longrightarrow> k \<le> j \<Longrightarrow> j \<le> length s \<Longrightarrow> matchAt s j = None"
proof (induction s k rule: regexExec.induct)
  case (1 s k)
  from 1(2) have m: "matchAt s k = None" and le: "k \<le> length s"
    using 1(3,4) by (subst (asm) regexExec.simps, auto split: if_splits option.splits)+
  show ?case
  proof (cases "j = k")
    case True
    with m show ?thesis by simp
  next
    case False
    from 1(2) m le have "regexExec s (k + 1) = None"
      by (subst (asm) regexExec.simps) simp
    with 1 m le False show ?thesis by simp
  qed
qed

lemma regexExec_Some:
  "regexExec s k = Some (i, n) \<Longrightarrow>
     k \<le> i \<and> matchAt s i = Some n \<and> (\<forall>j. k \<le> j \<and> j < i \<longrightarrow> matchAt s j = None)"
proof (induction s k rule: regexExec.induct)
  case (1 s k)
  from 1(2) have le: "k \<le> length s"
    by (subst (asm) regexExec.simps) (auto split: if_splits)
  show ?case
  proof (cases "matchAt s k")
    case (Some m)
    with 1(2) le show ?thesis by (subst (asm) regexExec.simps) auto
  next
    case None
    with 1(2) le have "regexExec s (k + 1) = Some (i, n)"
      by (subst (asm) regexExec.simps) simp
    with 1(1) None le have ih: "k + 1 \<le> i \<and> matchAt s i = Some n
        \<and> (\<forall>j. k + 1 \<le> j \<and> j < i \<longrightarrow> matchAt s j = None)"
      by simp
    show ?thesis
    proof (intro conjI allI impI)
      show "k \<le> i" using ih by simp
      show "matchAt s i = Some n" using ih by simp
      fix j assume "k \<le> j \<and> j < i"
      then show "matchAt s j = None" using ih None by (cases "j = k") auto
    qed
  qed
qed

lemma timestampRun_syntactic:
  "timestampRun s i n \<longleftrightarrow> syntacticRun s i n \<and> isValidTimestamp (JSString (take n (drop i s)))"
  by (auto simp: timestampRun_def syntacticRun_def)

lemma runsAt_None: "matchAt s i = None \<Longrightarrow> runsAt s i = []"
  by (simp add: runsAt_def timestampRun_syntactic matchAt_iff [symmetric])

lemma runsAt_Some:
  assumes "matchAt s i = Some n"
  shows "runsAt s i =
     (if isValidTimestamp (JSString (take n (drop i s))) then [candidateAt s i n] else [])"
proof -
  from assms have n: "n = 10 \<or> n = 13" by (auto simp: matchAt_def split: if_splits)
  have "timestampRun s i m \<longleftrightarrow> m = n \<and> isValidTimestamp (JSString (take n (drop i s)))" for m
    using assms by (auto simp: timestampRun_syntactic matchAt_iff [symmetric])
  then show ?thesis using n by (auto simp: runsAt_def)
qed

lemma pushIfValid_runsAt:
  assumes "matchAt s i = Some n"
  shows "pushIfValid acc (take n (drop i s)) i = acc @ runsAt s i"
proof -
  from assms have "digitsAt s i n" by (auto simp: matchAt_def split: if_splits)
  then have "length (take n (drop i s)) = n" by (auto simp: digitsAt_def)
  then show ?thesis
    by (simp add: pushIfValid_def runsAt_Some [OF assms] candidateAt_def)
qed

lemma upt_split3:
  assumes "k \<le> i" "i < m" "m \<le> l"
  shows "[k..<l] = [k..<i] @ i # [Suc i..<m] @ [m..<l]"
proof -
  have "[k..<l] = [k..<i] @ [i..<l]"
    using assms upt_add_eq_append [of k i "l - i"] by simp
  also have "[i..<l] = i # [Suc i..<l]" using assms by (simp add: upt_conv_Cons)
  also have "[Suc i..<l] = [Suc i..<m] @ [m..<l]"
    using assms upt_add_eq_append [of "Suc i" m "l - m"] by simp
  finally show ?thesis by simp
qed

text \<open>The loop, started at any position, appends the runs from that position on.\<close>

lemma findLoop_runs: "findLoop s k acc = acc @ concat (map (runsAt s) [k..<length s])"
proof (induction s k acc rule: findLoop.induct)
  case (1 s k acc)
  show ?case
  proof (cases "regexExec s k")
    case None
    then have "\<forall>j \<in> set [k..<length s]. runsAt s j = []"
      using regexExec_None [OF None] by (auto intro: runsAt_None)
    then have "concat (map (runsAt s) [k..<length s]) = []" by simp
    with None show ?thesis by (subst findLoop.simps) simp
  next
    case (Some p)
    obtain i n where p: "p = (i, n)" by (cases p)
    from regexExec_Some [of s k i n] Some p
    have ki: "k \<le> i" and m: "matchAt s i = Some n"
      and before: "\<And>j. k \<le> j \<Longrightarrow> j < i \<Longrightarrow> matchAt s j = None"
      by auto
    from m have run: "syntacticRun s i n" by (simp add: matchAt_iff)
    then have n0: "0 < n" and le: "i + n \<le> length s"
      by (auto simp: syntacticRun_def maximalDigitRun_def digitsAt_def)
    have r1: "concat (map (runsAt s) [k..<i]) = []"
      using before by (auto intro: runsAt_None)
    have r2: "concat (map (runsAt s) [Suc i..<i + n]) = []"
      using run_gap [OF run] by (auto intro: runsAt_None)
    have split: "[k..<length s] = [k..<i] @ i # [Suc i..<i + n] @ [i + n..<length s]"
      using upt_split3 [of k i "i + n" "length s"] ki n0 le by simp
    have "findLoop s k acc = findLoop s (i + n) (pushIfValid acc (take n (drop i s)) i)"
      using Some p by (subst findLoop.simps) simp
    also have "\<dots> = pushIfValid acc (take n (drop i s)) i
        @ concat (map (runsAt s) [i + n..<length s])"
      using 1 [OF Some p [symmetric]] by simp
    also have "\<dots> = acc @ runsAt s i @ concat (map (runsAt s) [i + n..<length s])"
      by (simp add: pushIfValid_runsAt [OF m])
    also have "\<dots> = acc @ concat (map (runsAt s) [k..<length s])"
      by (subst split) (simp add: r1 r2)
    finally show ?thesis .
  qed
qed

lemma findTimestamps_runs: "findTimestamps s = timestampRuns s"
  by (simp add: findTimestamps_def findLoop_runs timestampRuns_def runsAt_def [abs_def])

lemma findLoop_sorted:
  "sorted_wrt (\<lambda>a b. index a + length' a \<le> index b) acc \<Longrightarrow>
   (\<forall>a \<in> set acc. index a + length' a \<le> k) \<Longrightarrow>
   sorted_wrt (\<lambda>a b. index a + length' a \<le> index b) (findLoop s k acc)"
proof (induction s k acc rule: findLoop.induct)
  case (1 s k acc)
  show ?case
  proof (cases "regexExec s k")
    case None
    with 1(2) show ?thesis by (subst findLoop.simps) simp
  next
    case (Some p)
    obtain i n where p: "p = (i, n)" by (cases p)
    from regexExec_Some [of s k i n] Some p
    have ki: "k \<le> i" and m: "matchAt s i = Some n" by auto
    from m have "digitsAt s i n" by (auto simp: matchAt_def split: if_splits)
    then have len: "length (take n (drop i s)) = n" by (auto simp: digitsAt_def)
    let ?acc = "pushIfValid acc (take n (drop i s)) i"
    have s: "sorted_wrt (\<lambda>a b. index a + length' a \<le> index b) ?acc"
      using 1(2,3) ki by (auto simp: pushIfValid_def sorted_wrt_append)
    have b: "\<forall>a \<in> set ?acc. index a + length' a \<le> i + n"
      using 1(3) ki len by (auto simp: pushIfValid_def)
    have "findLoop s k acc = findLoop s (i + n) ?acc"
      using Some p by (subst findLoop.simps) simp
    with 1(1) [OF Some p [symmetric] s b] show ?thesis by simp
  qed
qed

lemma timestampRuns_member:
  "c \<in> set (timestampRuns s) \<longleftrightarrow>
     (\<exists>i n. i < length s \<and> timestampRun s i n \<and> c = candidateAt s i n)"
  by (auto simp: timestampRuns_def timestampRun_def)

lemma timestampRun_in_range: "timestampRun s i n \<Longrightarrow> i < length s"
  by (auto simp: timestampRun_def maximalDigitRun_def digitsAt_def)

lemma findTimestamps_none_example: "findTimestamps (js ''id12345678901x'') = []"
  by (simp add: findTimestamps_def findLoop.simps regexExec.simps matchAt_def wordBoundary_def
      digitsAt_def isWordChar_def isDigit_def js_def)

lemma findTimestamps_one_example:
  "findTimestamps (js ''ts=1701792000 done'') =
     [\<lparr> value = js ''1701792000'', index = 3, length' = 10, candidate.isSeconds = True \<rparr>]"
proof -
  have "isValidTimestamp (JSString (js ''1701792000''))"
    by (simp add: isValidTimestamp_digits Let_def digits_eval)
  then show ?thesis
    by (simp add: findTimestamps_def findLoop.simps regexExec.simps matchAt_def wordBoundary_def
        digitsAt_def isWordChar_def isDigit_def js_def pushIfValid_def)
qed

text \<open>
  C4. \<open>findTimestamps(text)\<close> returns exactly the maximal runs of digits of the text that
  have a word boundary on either side, are 10 or 13 digits long and pass
  \<open>isValidTimestamp\<close>, each with its text, index and length, from left to right; every
  reported candidate is such a run and every such run is reported; a candidate ends
  before the next one starts. \<open>"id12345678901x"\<close> yields nothing and
  \<open>"ts=1701792000 done"\<close> yields the one candidate \<open>1701792000\<close> at index 3 of length 10.
\<close>

theorem findTimestamps_exact:
  "findTimestamps text = timestampRuns text
   \<and> (\<forall>c \<in> set (findTimestamps text).
         timestampRun text (index c) (length' c)
         \<and> value c = take (length' c) (drop (index c) text))
   \<and> (\<forall>i n. timestampRun text i n \<longrightarrow> candidateAt text i n \<in> set (findTimestamps text))
   \<and> sorted_wrt (\<lambda>a b. index a + length' a \<le> index b) (findTimestamps text)
   \<and> findTimestamps (js ''id12345678901x'') = []
   \<and> findTimestamps (js ''ts=1701792000 done'') =
       [\<lparr> value = js ''1701792000'', index = 3, length' = 10, candidate.isSeconds = True \<rparr>]"
proof (intro conjI)
  show "findTimestamps text = timestampRuns text"
    by (rule findTimestamps_runs)
  show "\<forall>c \<in> set (findTimestamps text).
         timestampRun text (index c) (length' c)
         \<and> value c = take (length' c) (drop (index c) text)"
    by (auto simp: findTimestamps_runs timestampRuns_member candidateAt_def)
  show "\<forall>i n. timestampRun text i n \<longrightarrow> candidateAt text i n \<in> set (findTimestamps text)"
    using timestampRun_in_range by (auto simp: findTimestamps_runs timestampRuns_member)
  show "sorted_wrt (\<lambda>a b. index a + length' a \<le> index b) (findTimestamps text)"
    unfolding findTimestamps_def by (rule findLoop_sorted) simp_all
  show "findTimestamps (js ''id12345678901x'') = []"
    by (rule findTimestamps_none_example)
  show "findTimestamps (js ''ts=1701792000 done'') =
       [\<lparr> value = js ''1701792000'', index = 3, length' = 10, candidate.isSeconds = True \<rparr>]"
    by (rule findTimestamps_one_example)
qed

theorem findTimestamps_exact_witness:
  "timestampRun (js ''ts=1701792000 done'') 3 10
   \<and> candidateAt (js ''ts=1701792000 done'') 3 10 \<in> set (findTimestamps (js ''ts=1701792000 done''))
   \<and> timestampRuns (js ''ts=1701792000 done'') =
       [\<lparr> value = js ''1701792000'', index = 3, length' = 10, candidate.isSeconds = True \<rparr>]"
proof -
  let ?s = "js ''ts=1701792000 done''"
  let ?c = "\<lparr> value = js ''1701792000'', index = 3, length' = 10, candidate.isSeconds = True \<rparr>"
  note t = findTimestamps_exact [of ?s]
  note t1 = t [THEN conjunct1]
  note t2 = t [THEN conjunct2, THEN conjunct1]
  note t3 = t [THEN conjunct2, THEN conjunct2, THEN conjunct1]
  note t6 = t [THEN conjunct2, THEN conjunct2, THEN conjunct2, THEN conjunct2, THEN conjunct2]
  have runs: "timestampRuns ?s = [?c]" using t6 unfolding t1 .
  have mem: "?c \<in> set (findTimestamps ?s)" unfolding t6 by simp
  have "timestampRun ?s (index ?c) (length' ?c)"
    using t2 [THEN bspec, OF mem] by (rule conjunct1)
  then have run: "timestampRun ?s 3 10" by simp
  have cand: "candidateAt ?s 3 10 \<in> set (findTimestamps ?s)"
    using t3 [THEN spec, THEN spec, THEN mp, OF run] .
  show ?thesis using run cand runs by (intro conjI)
qed

section \<open>The converter on the concrete host\<close>

lemma civil_example: "civilFromDays 19696 = (2023, 12, 5)"
  unfolding civilFromDays_def Let_def by simp

lemma utcFields_example:
  "utcFields 1701792000000 =
     \<lparr> ufYear = 2023, ufMonth = 12, ufDay = 5, ufHour = 16, ufMinute = 0, ufSecond = 0,
       ufWeekday = 2 \<rparr>"
  unfolding utcFields_def Let_def by (simp add: civil_example)

lemma enUSDateTime_example: "enUSDateTime 1701792000000 = js ''12/5/2023, 4:00:00 PM''"
  unfolding enUSDateTime_def Let_def
  by (simp add: utcFields_example hourOfTwelve_def meridiem_def js_eval)

lemma formatToParts_example:
  "formatToParts utcHost tz 1701792000000 =
     \<lparr> yearPart = js ''2023'', monthPart = js ''12'', dayPart = js ''05'',
       hourPart = js ''16'', minutePart = js ''00'', secondPart = js ''00'' \<rparr>"
  unfolding utcHost_def Let_def by (simp add: utcFields_example js_eval)

lemma parseInt10_examples:
  "parseInt10 (js ''2023'') = Some 2023" "parseInt10 (js ''12'') = Some 12"
  "parseInt10 (js ''05'') = Some 5" "parseInt10 (js ''16'') = Some 16"
  "parseInt10 (js ''00'') = Some 0"
  unfolding parseInt10_def Let_def
  by (simp_all add: isWhiteSpace_def isDigit_def decimalValue_def digitVal_def js_def)

lemma names_example:
  "monthName 1701792000000 = js ''December''" "weekdayName 1701792000000 = js ''Tuesday''"
  by (simp_all add: monthName_def weekdayName_def monthNames_def weekdayNames_def
      utcFields_example)

lemma UTC_not_local: "js ''UTC'' \<noteq> js ''local''"
  by (simp add: js_def)

lemma getTimezoneOffset_example: "getTimezoneOffset utcHost 1701792000000 (js ''UTC'') = []"
proof -
  have "longOffsetString utcHost (Some (js ''UTC'')) 1701792000000
      = js ''12/5/2023, 4:00:00 PM GMT''"
    by (simp add: utcHost_def enUSDateTime_example js_def)
  moreover have "matchGMT (js ''12/5/2023, 4:00:00 PM GMT'') = None"
    by (simp add: js_def offsetBody_def offsetForm_def)
  ultimately show ?thesis
    using UTC_not_local by (simp add: getTimezoneOffset_def withTimeZone_def utcHost_def)
qed

lemma getTimezoneAbbr_example: "getTimezoneAbbr utcHost 1701792000000 (js ''UTC'') = js ''UTC''"
proof -
  have "shortNameString utcHost (Some (js ''UTC'')) 1701792000000
      = js ''12/5/2023, 4:00:00 PM UTC''"
    by (simp add: utcHost_def enUSDateTime_example js_def)
  moreover have "lastField (js ''12/5/2023, 4:00:00 PM UTC'') = js ''UTC''"
    by (simp add: js_def lastField_def)
  ultimately show ?thesis
    using UTC_not_local by (simp add: getTimezoneAbbr_def withTimeZone_def utcHost_def)
qed

lemma getDateParts_example:
  "getDateParts utcHost 1701792000000 (js ''UTC'') =
     Inr \<lparr> year = Some 2023, month = Some 12, monthLong = js ''December'',
           monthShort = js ''Dec'', day = Some 5, weekdayLong = js ''Tuesday'',
           weekdayShort = js ''Tue'', hour = Some 16, hour12 = Some 4, minute = Some 0,
           second = Some 0, millisecond = 0, ampm = js ''pm'', offset = [],
           tzAbbr = js ''UTC'' \<rparr>"
proof -
  have tz: "tzOptions (js ''UTC'') = Some (js ''UTC'')"
    using UTC_not_local by (simp add: tzOptions_def)
  have ok: "withTimeZone utcHost (Some (js ''UTC'')) x = Inr x" for x :: intlparts
    by (simp add: withTimeZone_def utcHost_def)
  have names: "monthLongName utcHost z 1701792000000 = js ''December''"
    "monthShortName utcHost z 1701792000000 = js ''Dec''"
    "weekdayLongName utcHost z 1701792000000 = js ''Tuesday''"
    "weekdayShortName utcHost z 1701792000000 = js ''Tue''" for z
    by (simp_all add: utcHost_def names_example) (simp_all add: js_def)
  show ?thesis
    unfolding getDateParts_def Let_def tz ok formatToParts_example
    by (simp add: parseInt10_examples names getTimezoneOffset_example getTimezoneAbbr_example)
qed

lemma replicate_small: "replicate 2 x = [x, x]" "replicate 3 x = [x, x, x]"
  by (simp_all add: numeral_2_eq_2 numeral_3_eq_3)

lemma tokens_example:
  "tokens \<lparr> year = Some 2023, month = Some 12, monthLong = js ''December'',
           monthShort = js ''Dec'', day = Some 5, weekdayLong = js ''Tuesday'',
           weekdayShort = js ''Tue'', hour = Some 16, hour12 = Some 4, minute = Some 0,
           second = Some 0, millisecond = 0, ampm = js ''pm'', offset = [],
           tzAbbr = js ''UTC'' \<rparr> =
     [(js ''YYYY'', js ''2023''), (js ''YY'', js ''23''), (js ''MMMM'', js ''December''),
      (js ''MMM'', js ''Dec''), (js ''MM'', js ''12''), (js ''M'', js ''12''),
      (js ''DD'', js ''05''), (js ''D'', js ''5''), (js ''dddd'', js ''Tuesday''),
      (js ''ddd'', js ''Tue''), (js ''HH'', js ''16''), (js ''H'', js ''16''),
      (js ''hh'', js ''04''), (js ''h'', js ''4''), (js ''mm'', js ''00''), (js ''m'', js ''0''),
      (js ''ss'', js ''00''), (js ''s'', js ''0''), (js ''SSS'', js ''000''),
      (js ''A'', js ''PM''), (js ''a'', js ''pm''), (js ''Z'', []), (js ''z'', js ''UTC'')]"
  by (simp add: tokens_def numberToString_def sliceLast2_def toUpperCase_def toLowerCase_def
      js_eval replicate_small)

text \<open>The order of the passes: longest tokens first, the table's order within one length.\<close>

lemma sortedTokens_example:
  "sortedTokens \<lparr> year = Some 2023, month = Some 12, monthLong = js ''December'',
           monthShort = js ''Dec'', day = Some 5, weekdayLong = js ''Tuesday'',
           weekdayShort = js ''Tue'', hour = Some 16, hour12 = Some 4, minute = Some 0,
           second = Some 0, millisecond = 0, ampm = js ''pm'', offset = [],
           tzAbbr = js ''UTC'' \<rparr> =
     [(js ''YYYY'', js ''2023''), (js ''MMMM'', js ''December''), (js ''dddd'', js ''Tuesday''),
      (js ''MMM'', js ''Dec''), (js ''ddd'', js ''Tue''), (js ''SSS'', js ''000''),
      (js ''YY'', js ''23''), (js ''MM'', js ''12''), (js ''DD'', js ''05''), (js ''HH'', js ''16''),
      (js ''hh'', js ''04''), (js ''mm'', js ''00''), (js ''ss'', js ''00''),
      (js ''M'', js ''12''), (js ''D'', js ''5''), (js ''H'', js ''16''), (js ''h'', js ''4''),
      (js ''m'', js ''0''), (js ''s'', js ''0''), (js ''A'', js ''PM''), (js ''a'', js ''pm''),
      (js ''Z'', []), (js ''z'', js ''UTC'')]"
  unfolding sortedTokens_def tokens_example by (simp add: js_def)

lemma formatCustom_example:
  "formatCustom utcHost 1701792000000 pattern (js ''UTC'') =
     Inr (foldl (\<lambda>result (token, v). replaceAll token v result) pattern
     [(js ''YYYY'', js ''2023''), (js ''MMMM'', js ''December''), (js ''dddd'', js ''Tuesday''),
      (js ''MMM'', js ''Dec''), (js ''ddd'', js ''Tue''), (js ''SSS'', js ''000''),
      (js ''YY'', js ''23''), (js ''MM'', js ''12''), (js ''DD'', js ''05''), (js ''HH'', js ''16''),
      (js ''hh'', js ''04''), (js ''mm'', js ''00''), (js ''ss'', js ''00''),
      (js ''M'', js ''12''), (js ''D'', js ''5''), (js ''H'', js ''16''), (js ''h'', js ''4''),
      (js ''m'', js ''0''), (js ''s'', js ''0''), (js ''A'', js ''PM''), (js ''a'', js ''pm''),
      (js ''Z'', []), (js ''z'', js ''UTC'')])"
  by (simp add: formatCustom_def getDateParts_example substituteTokens_def sortedTokens_example)

lemma toDate_example:
  "toDate (JSString (js ''1701792000'')) = Some (Date (Some 1701792000000))"
proof -
  let ?v = "JSString (js ''1701792000'')"
  have v: "isValidTimestamp ?v"
    by (simp add: isValidTimestamp_digits Let_def digits_eval)
  have t: "trim (String ?v) = js ''1701792000''"
    by (simp add: digits_eval)
  have d: "list_all isDigit (trim (String ?v))" "trim (String ?v) \<noteq> []"
    unfolding t by (simp_all add: js_def isDigit_def)
  have ms: "toMilliseconds ?v = Finite 1701792000000"
    using toMilliseconds_digits [OF d] unfolding t
    by (simp add: js_def decimalValue_def digitVal_def)
  show ?thesis using v by (simp add: toDate_def ms newDate_def)
qed

text \<open>The relative phrases of the specification's examples, as the code prints them.\<close>

lemma formatRelative_examples:
  "formatRelative (t + 3600000) (Date (Some t)) = js ''1 hour ago''"
  "formatRelative t (Date (Some (t + 172800000))) = js ''in 2 days''"
  "formatRelative (t + 999) (Date (Some t)) = js ''just now''"
  unfolding formatRelative_def Let_def by (simp_all add: js_eval)




section \<open>Claims about formatDate and convert\<close>

lemma formatDate_returns: "\<exists>s. formatDate h now d opts = Inr s"
  by (simp add: formatDate_def Let_def split: datearg.split jsdate.split option.split sum.split)


text \<open>What \<open>convert\<close> returns on an accepted value.\<close>

lemma convert_success:
  assumes "isValidTimestamp v"
  shows "\<exists>f f2. convert h now v opts =
     Inr \<lparr> success = True, error = None, original = v,
           milliseconds = Some (toMilliseconds v),
           seconds = Some (floorDiv1000 (toMilliseconds v)),
           isSeconds = Some (length (String v) = 10),
           date = Some (newDate (toMilliseconds v)),
           formatted = Some f, secondaryFormatted = f2,
           relative = Some (formatRelative now (newDate (toMilliseconds v))) \<rparr>
     \<and> formatDate h now (DateObject (newDate (toMilliseconds v))) opts = Inr f
     \<and> (if showSecondaryTimezone opts \<and> secondaryTimezone opts \<noteq> None
            \<and> secondaryTimezone opts \<noteq> Some []
         then \<exists>g. f2 = Some g
              \<and> formatDate h now (DateObject (newDate (toMilliseconds v)))
                   (opts\<lparr>timezone := secondaryTimezone opts\<rparr>) = Inr g
         else f2 = None)"
proof -
  let ?d = "newDate (toMilliseconds v)"
  obtain f where f: "formatDate h now (DateObject ?d) opts = Inr f"
    using formatDate_returns by blast
  obtain g where g: "formatDate h now (DateObject ?d) (opts\<lparr>timezone := secondaryTimezone opts\<rparr>) = Inr g"
    using formatDate_returns by blast
  show ?thesis
    using assms f g by (simp add: convert_def toDate_def Let_def)
qed

text \<open>
  C3. For a value that fails \<open>isValidTimestamp\<close>, and any options, \<open>convert\<close> does not
  raise: it returns the record with \<open>success\<close> false, the error text
  \<open>Invalid timestamp\<close> and the raw value, and none of \<open>milliseconds\<close>, \<open>seconds\<close>,
  \<open>isSeconds\<close>, \<open>date\<close>, \<open>formatted\<close>, \<open>secondaryFormatted\<close> and \<open>relative\<close> is set.
\<close>

theorem convert_invalid_input:
  assumes "\<not> isValidTimestamp v"
  shows "convert h now v opts =
     Inr \<lparr> success = False, error = Some (js ''Invalid timestamp''), original = v,
           milliseconds = None, seconds = None, isSeconds = None, date = None,
           formatted = None, secondaryFormatted = None, relative = None \<rparr>"
  using assms by (simp add: convert_def toDate_def)

theorem convert_invalid_input_witness:
  "\<not> isValidTimestamp (JSString (js ''not-a-timestamp''))
   \<and> convert utcHost 0 (JSString (js ''not-a-timestamp''))
        \<lparr> format = None, customFormat = None, timezone = None,
          showSecondaryTimezone = False, secondaryTimezone = None \<rparr> =
      Inr \<lparr> success = False, error = Some (js ''Invalid timestamp''),
            original = JSString (js ''not-a-timestamp''),
            milliseconds = None, seconds = None, isSeconds = None, date = None,
            formatted = None, secondaryFormatted = None, relative = None \<rparr>"
proof -
  have n: "\<not> isValidTimestamp (JSString (js ''not-a-timestamp''))"
    by (simp add: isValidTimestamp_digits Let_def digits_eval)
  from convert_invalid_input [OF n] n show ?thesis by simp
qed

text \<open>
  C8, at the input \<open>" 1701792000"\<close> (a leading space). The value is accepted, its trimmed
  form has exactly 10 digits and it is read as seconds, \<open>milliseconds\<close> being
  1701792000000; yet \<open>isSeconds\<close> is false, because \<open>convert\<close> measures the untrimmed
  string, whose length is 11.
\<close>

theorem convert_isSeconds_untrimmed:
  "isValidTimestamp (JSString (js '' 1701792000''))
   \<and> length (trim (String (JSString (js '' 1701792000'')))) = 10
   \<and> list_all isDigit (trim (String (JSString (js '' 1701792000''))))
   \<and> (\<exists>r. convert h now (JSString (js '' 1701792000'')) opts = Inr r
          \<and> success r
          \<and> milliseconds r = Some (Finite 1701792000000)
          \<and> conversion.isSeconds r = Some False)"
proof -
  let ?v = "JSString (js '' 1701792000'')"
  have v: "isValidTimestamp ?v"
    by (simp add: isValidTimestamp_digits Let_def digits_eval)
  have t: "trim (String ?v) = js ''1701792000''"
    by (simp add: digits_eval)
  have d: "list_all isDigit (trim (String ?v))" "trim (String ?v) \<noteq> []"
    unfolding t by (simp_all add: js_def isDigit_def)
  have ms: "toMilliseconds ?v = Finite 1701792000000"
    using toMilliseconds_digits [OF d] unfolding t
    by (simp add: js_def decimalValue_def digitVal_def)
  have l: "length (String ?v) = 11" by (simp add: js_def)
  from convert_success [OF v, of h now opts] obtain r where
    "convert h now ?v opts = Inr r" "success r" "milliseconds r = Some (toMilliseconds ?v)"
    "conversion.isSeconds r = Some (length (String ?v) = 10)"
    by auto
  with ms l have "\<exists>r. convert h now ?v opts = Inr r \<and> success r
      \<and> milliseconds r = Some (Finite 1701792000000) \<and> conversion.isSeconds r = Some False"
    by auto
  with v d(1) t show ?thesis by (simp add: js_def)
qed



text \<open>
  C10. When \<open>formatDate\<close> is handed something that is not a Date object, or a Date whose
  time value is NaN, it returns \<open>Invalid Date\<close>, whatever the options, the host and the
  clock are.
\<close>

theorem formatDate_invalid_date:
  "formatDate h now (NotADate v) opts = Inr (js ''Invalid Date'')
   \<and> formatDate h now (DateObject (Date None)) opts = Inr (js ''Invalid Date'')"
  by (simp add: formatDate_def Let_def)

section \<open>Claims about the formatting dialects\<close>

text \<open>
  C5, at a difference of exactly 0 ms. The claim has \<open>just now\<close> there; the code tests
  \<open>diff > 0\<close> for the past, so a zero difference takes the future branch and prints
  \<open>in 0 seconds\<close>.
\<close>

theorem formatRelative_zero_difference:
  "formatRelative now (Date (Some now)) = js ''in 0 seconds''
   \<and> formatRelative now (Date (Some now)) \<noteq> js ''just now''"
  unfolding formatRelative_def Let_def by (simp add: js_eval)

text \<open>
  C6, at the instant of the timestamp 1701792000 in the zone UTC. The pattern
  \<open>YYYY-MM-DD HH:mm:ss\<close> gives \<open>2023-12-05 16:00:00\<close>, as the claim says. The pattern
  \<open>MMMM\<close> does not give \<open>December\<close>: the month name is inserted by the \<open>MMMM\<close> pass,
  then the later \<open>D\<close> pass rewrites its \<open>D\<close> into the day and the \<open>m\<close> pass rewrites
  its \<open>m\<close> into the minute, which leaves \<open>5ece0ber\<close>. So a substituted value is matched
  again by a later token pass.
\<close>

theorem formatCustom_rematches_values:
  "toDate (JSString (js ''1701792000'')) = Some (Date (Some 1701792000000))
   \<and> formatCustom utcHost 1701792000000 (js ''YYYY-MM-DD HH:mm:ss'') (js ''UTC'')
       = Inr (js ''2023-12-05 16:00:00'')
   \<and> formatCustom utcHost 1701792000000 (js ''MMMM'') (js ''UTC'') = Inr (js ''5ece0ber'')
   \<and> formatCustom utcHost 1701792000000 (js ''MMMM D, YYYY h:mm:ss A'') (js ''UTC'')
       = Inr (js ''5ece0ber 5, 2023 4:00:00 PM'')"
proof (intro conjI)
  show "toDate (JSString (js ''1701792000'')) = Some (Date (Some 1701792000000))"
    by (rule toDate_example)
  show "formatCustom utcHost 1701792000000 (js ''YYYY-MM-DD HH:mm:ss'') (js ''UTC'')
       = Inr (js ''2023-12-05 16:00:00'')"
    unfolding formatCustom_example by (simp add: js_def)
  show "formatCustom utcHost 1701792000000 (js ''MMMM'') (js ''UTC'') = Inr (js ''5ece0ber'')"
    unfolding formatCustom_example by (simp add: js_def)
  show "formatCustom utcHost 1701792000000 (js ''MMMM D, YYYY h:mm:ss A'') (js ''UTC'')
       = Inr (js ''5ece0ber 5, 2023 4:00:00 PM'')"
    unfolding formatCustom_example by (simp add: js_def)
qed

lemma getDateParts_unknown_zone:
  "z \<noteq> js ''local'' \<Longrightarrow> \<not> validTimeZone h z \<Longrightarrow> getDateParts h t z = Inl RangeError"
  by (simp add: getDateParts_def tzOptions_def withTimeZone_def Let_def)

lemma formatDateTry_unknown_zone:
  assumes "fmt \<noteq> js ''relative''" "validTimeZone h (js ''UTC'')" "z \<noteq> js ''local''"
    "\<not> validTimeZone h z"
  shows "formatDateTry h now t fmt c z = Inl RangeError"
proof -
  from assms(2,4) have "z \<noteq> js ''UTC''" by auto
  with assms show ?thesis
    by (simp add: formatDateTry_def formatISO_def formatCustom_def getDateParts_unknown_zone
        tzOptions_def withTimeZone_def Let_def)
qed

text \<open>
  C7 (amended). On a valid Date \<open>formatDate\<close> returns a string and does not raise, for
  every dialect and every time zone string. When the dialect is not \<open>relative\<close> and the
  requested zone, other than \<open>local\<close>, is one the platform cannot resolve, the result is
  the locale-default rendering \<open>date.toLocaleString()\<close> (the platform is taken to know
  \<open>UTC\<close>). Under the \<open>relative\<close> dialect the zone is never consulted and the result is
  the relative phrase.
\<close>

theorem formatDate_total_fallback:
  "(\<exists>s. formatDate h now (DateObject (Date (Some t))) opts = Inr s)
   \<and> (format opts \<noteq> Some (js ''relative'') \<longrightarrow> validTimeZone h (js ''UTC'') \<longrightarrow>
        timezone opts = Some z \<longrightarrow> z \<noteq> js ''local'' \<longrightarrow> \<not> validTimeZone h z \<longrightarrow>
        formatDate h now (DateObject (Date (Some t))) opts = Inr (defaultLocaleString h t))
   \<and> (format opts = Some (js ''relative'') \<longrightarrow>
        formatDate h now (DateObject (Date (Some t))) opts
        = Inr (formatRelative now (Date (Some t))))"
proof (intro conjI impI)
  show "\<exists>s. formatDate h now (DateObject (Date (Some t))) opts = Inr s"
    by (rule formatDate_returns)
next
  assume f: "format opts \<noteq> Some (js ''relative'')" and u: "validTimeZone h (js ''UTC'')"
    and z: "timezone opts = Some z" "z \<noteq> js ''local''" "\<not> validTimeZone h z"
  let ?fmt = "case format opts of None \<Rightarrow> js ''locale'' | Some f \<Rightarrow> f"
  have "?fmt \<noteq> js ''relative''"
    using f by (auto simp: js_def split: option.split)
  then have "formatDateTry h now t ?fmt c z = Inl RangeError" for c
    using u z(2,3) by (rule formatDateTry_unknown_zone)
  then show "formatDate h now (DateObject (Date (Some t))) opts = Inr (defaultLocaleString h t)"
    using z(1) by (simp add: formatDate_def Let_def)
next
  assume "format opts = Some (js ''relative'')"
  moreover have "js ''relative'' \<noteq> js ''iso''" by (simp add: js_def)
  ultimately show "formatDate h now (DateObject (Date (Some t))) opts
      = Inr (formatRelative now (Date (Some t)))"
    by (simp add: formatDate_def formatDateTry_def Let_def)
qed

theorem formatDate_total_fallback_witness:
  "None \<noteq> Some (js ''relative'') \<and> validTimeZone utcHost (js ''UTC'')
   \<and> js ''Mars/Phobos'' \<noteq> js ''local'' \<and> \<not> validTimeZone utcHost (js ''Mars/Phobos'')
   \<and> formatDate utcHost 0 (DateObject (Date (Some 1701792000000)))
        \<lparr> format = None, customFormat = None, timezone = Some (js ''Mars/Phobos''),
          showSecondaryTimezone = False, secondaryTimezone = None \<rparr>
      = Inr (js ''12/5/2023, 4:00:00 PM'')
   \<and> formatDate utcHost 1701795600000 (DateObject (Date (Some 1701792000000)))
        \<lparr> format = Some (js ''relative''), customFormat = None, timezone = None,
          showSecondaryTimezone = False, secondaryTimezone = None \<rparr>
      = Inr (js ''1 hour ago'')"
proof -
  have a: "validTimeZone utcHost (js ''UTC'')" "js ''Mars/Phobos'' \<noteq> js ''local''"
    "\<not> validTimeZone utcHost (js ''Mars/Phobos'')"
    by (simp_all add: utcHost_def js_def)
  have d: "defaultLocaleString utcHost 1701792000000 = js ''12/5/2023, 4:00:00 PM''"
    by (simp add: utcHost_def enUSDateTime_example)
  have r: "formatRelative 1701795600000 (Date (Some 1701792000000)) = js ''1 hour ago''"
    using formatRelative_examples(1) [of 1701792000000] by simp
  from formatDate_total_fallback [where h = utcHost and now = 0 and t = 1701792000000
      and z = "js ''Mars/Phobos''"
      and opts = "\<lparr> format = None, customFormat = None, timezone = Some (js ''Mars/Phobos''),
          showSecondaryTimezone = False, secondaryTimezone = None \<rparr>"]
    formatDate_total_fallback [where h = utcHost and now = 1701795600000 and t = 1701792000000
      and opts = "\<lparr> format = Some (js ''relative''), customFormat = None, timezone = None,
          showSecondaryTimezone = False, secondaryTimezone = None \<rparr>"]
    a d r
  show ?thesis by simp
qed

text \<open>
  C7 as stated fails under the \<open>relative\<close> dialect: with a zone identifier that the
  platform cannot resolve, \<open>formatDate\<close> returns the relative phrase, not the
  locale-default rendering of the instant.
\<close>

theorem formatDate_relative_ignores_zone:
  "\<not> validTimeZone utcHost (js ''Mars/Phobos'')
   \<and> formatDate utcHost 1701795600000 (DateObject (Date (Some 1701792000000)))
        \<lparr> format = Some (js ''relative''), customFormat = None,
          timezone = Some (js ''Mars/Phobos''), showSecondaryTimezone = False,
          secondaryTimezone = None \<rparr>
      = Inr (js ''1 hour ago'')
   \<and> defaultLocaleString utcHost 1701792000000 = js ''12/5/2023, 4:00:00 PM''
   \<and> js ''1 hour ago'' \<noteq> js ''12/5/2023, 4:00:00 PM''"
proof -
  have r: "formatRelative 1701795600000 (Date (Some 1701792000000)) = js ''1 hour ago''"
    using formatRelative_examples(1) [of 1701792000000] by simp
  have ne: "js ''relative'' \<noteq> js ''iso''" by (simp add: js_def)
  have "formatDate utcHost 1701795600000 (DateObject (Date (Some 1701792000000)))
        \<lparr> format = Some (js ''relative''), customFormat = None,
          timezone = Some (js ''Mars/Phobos''), showSecondaryTimezone = False,
          secondaryTimezone = None \<rparr>
      = Inr (js ''1 hour ago'')"
    using ne by (simp add: formatDate_def formatDateTry_def Let_def r)
  moreover have "\<not> validTimeZone utcHost (js ''Mars/Phobos'')"
    by (simp add: utcHost_def js_def)
  moreover have "defaultLocaleString utcHost 1701792000000 = js ''12/5/2023, 4:00:00 PM''"
    by (simp add: utcHost_def enUSDateTime_example)
  moreover have "js ''1 hour ago'' \<noteq> js ''12/5/2023, 4:00:00 PM''"
    by (simp add: js_def)
  ultimately show ?thesis by simp
qed

end
